theory Spec2Isabelle
  imports Main "HOL-Library.Word"
begin

unbundle bit_operations_syntax

section \<open>Slash-separated paths\<close>

text \<open>
  The in-memory filesystem keys its table by cleaned, rooted path strings.  The functions
  of this section follow the documented behaviour of Go's \<open>path/filepath\<close> on a platform
  whose separator is the slash and which has no volume names.
\<close>

definition FilePathSeparator :: string where
  "FilePathSeparator = ''/''"

text \<open>\<open>strings.Split(p, "/")\<close>: the pieces between separators, empty pieces included.\<close>

fun splitSep :: "string \<Rightarrow> string list" where
  "splitSep [] = [[]]"
| "splitSep (c # cs) =
     (if c = CHR ''/'' then [] # splitSep cs
      else (case splitSep cs of [] \<Rightarrow> [[c]] | x # xs \<Rightarrow> (c # x) # xs))"

text \<open>The path elements \<open>Clean\<close> keeps: empty elements and \<open>.\<close> are dropped.\<close>

definition pathElems :: "string \<Rightarrow> string list" where
  "pathElems p = filter (\<lambda>e. e \<noteq> [] \<and> e \<noteq> ''.'') (splitSep p)"

text \<open>
  Elimination of \<open>..\<close>: an inner \<open>..\<close> removes the element before it; a \<open>..\<close> that begins
  a rooted path is dropped; a \<open>..\<close> that begins an unrooted path is kept.  \<open>out\<close> is the
  output so far, last element first.
\<close>

fun resolveDotDot :: "bool \<Rightarrow> string list \<Rightarrow> string list \<Rightarrow> string list" where
  "resolveDotDot rooted out [] = rev out"
| "resolveDotDot rooted out (e # es) =
     (if e = ''..'' then
        (case out of
           [] \<Rightarrow> if rooted then resolveDotDot rooted [] es else resolveDotDot rooted [e] es
         | t # ts \<Rightarrow>
             if t = ''..'' then resolveDotDot rooted (e # out) es
             else resolveDotDot rooted ts es)
      else resolveDotDot rooted (e # out) es)"

fun joinSep :: "string list \<Rightarrow> string" where
  "joinSep [] = []"
| "joinSep [e] = e"
| "joinSep (e # es) = e @ CHR ''/'' # joinSep es"

text \<open>\<open>filepath.Clean\<close>: the shortest equivalent path; the empty path becomes \<open>.\<close>.\<close>

definition Clean :: "string \<Rightarrow> string" where
  "Clean path =
     (if path = [] then ''.''
      else
        let rooted = (hd path = CHR ''/'');
            out = joinSep (resolveDotDot rooted [] (pathElems path))
        in if rooted then CHR ''/'' # out
           else if out = [] then ''.'' else out)"

text \<open>\<open>filepath.Split\<close>: cut after the last separator.\<close>

definition Split :: "string \<Rightarrow> string \<times> string" where
  "Split path =
     (rev (dropWhile (\<lambda>c. c \<noteq> CHR ''/'') (rev path)),
      rev (takeWhile (\<lambda>c. c \<noteq> CHR ''/'') (rev path)))"

text \<open>\<open>filepath.Dir\<close>: everything up to the last separator, cleaned.\<close>

definition Dir :: "string \<Rightarrow> string" where
  "Dir path = Clean (fst (Split path))"

text \<open>\<open>filepath.Join\<close> of two elements: leading empty elements are ignored.\<close>

definition Join :: "string \<Rightarrow> string \<Rightarrow> string" where
  "Join a b =
     (if a \<noteq> [] then Clean (a @ CHR ''/'' # b)
      else if b \<noteq> [] then Clean b
      else [])"

text \<open>\<open>strings.HasPrefix\<close>.\<close>

definition HasPrefix :: "string \<Rightarrow> string \<Rightarrow> bool" where
  "HasPrefix s pre = (take (length pre) s = pre)"

text \<open>\<open>normalizePath\<close> of the in-memory filesystem.\<close>

definition normalizePath :: "string \<Rightarrow> string" where
  "normalizePath path0 =
     (let path = Clean (FilePathSeparator @ path0)
      in if path = ''.'' then FilePathSeparator
         else if path = ''..'' then FilePathSeparator
         else path)"

section \<open>Errors\<close>

text \<open>
  The error values of the package (\<open>ErrFileNotFound\<close> is \<open>os.ErrNotExist\<close>,
  \<open>ErrFileExists\<close> is \<open>os.ErrExist\<close>) and the two system error numbers the archive
  backend returns.
\<close>

datatype errno =
    ErrNotExist | ErrExist | ErrNotDir | ErrIsDir | ErrNotEmpty | ErrInvalid
  | ErrReadOnlyHandle | EPERM | ENOENT

abbreviation ErrFileNotFound :: errno where "ErrFileNotFound \<equiv> ErrNotExist"
abbreviation ErrFileExists :: errno where "ErrFileExists \<equiv> ErrExist"

text \<open>
  A failure is an \<open>*os.PathError\<close> (operation, path, cause), a bare error value, or a
  panic with its message.
\<close>

datatype failure = PathError string string errno | Bare errno | Panic string

fun errorText :: "errno \<Rightarrow> string" where
  "errorText ErrNotExist = ''file does not exist''"
| "errorText ErrExist = ''file already exists''"
| "errorText ErrNotDir = ''not a directory''"
| "errorText ErrIsDir = ''is a directory''"
| "errorText ErrNotEmpty = ''directory not empty''"
| "errorText ErrInvalid = ''invalid argument''"
| "errorText ErrReadOnlyHandle = ''file handle is read only''"
| "errorText EPERM = ''operation not permitted''"
| "errorText ENOENT = ''no such file or directory''"

text \<open>\<open>os.IsNotExist\<close>: looks through a path error at its cause.\<close>

fun IsNotExist :: "failure \<Rightarrow> bool" where
  "IsNotExist (PathError _ _ e) = (e = ErrNotExist \<or> e = ENOENT)"
| "IsNotExist (Bare e) = (e = ErrNotExist \<or> e = ENOENT)"
| "IsNotExist (Panic _) = False"

section \<open>File modes and open flags\<close>

type_synonym FileMode = "32 word"

definition ModeDir :: FileMode where "ModeDir = 0x80000000"
definition ModeTemporary :: FileMode where "ModeTemporary = 0x10000000"
definition ModeSetuid :: FileMode where "ModeSetuid = 0x800000"
definition ModeSetgid :: FileMode where "ModeSetgid = 0x400000"
definition ModeSticky :: FileMode where "ModeSticky = 0x100000"
definition ModePerm :: FileMode where "ModePerm = 0x1FF"

definition chmodBits :: FileMode where
  "chmodBits = ModePerm OR ModeSetuid OR ModeSetgid OR ModeSticky"

definition createPerm :: FileMode where "createPerm = 0x1B6"

text \<open>The open flags, with the values of the \<open>syscall\<close> package on Linux and on js/wasm.\<close>

definition O_RDONLY :: int where "O_RDONLY = 0"
definition O_WRONLY :: int where "O_WRONLY = 1"
definition O_RDWR :: int where "O_RDWR = 2"
definition O_CREATE :: int where "O_CREATE = 64"
definition O_EXCL :: int where "O_EXCL = 128"
definition O_TRUNC :: int where "O_TRUNC = 512"
definition O_APPEND :: int where "O_APPEND = 1024"

section \<open>Entries (package mem)\<close>

text \<open>
  Modelled from the spec: package \<open>mem\<close> (the entry type \<open>FileData\<close>, its constructors,
  setters, directory bookkeeping and file handles) is not among the sources.  An entry has
  a canonical path, a kind, byte content, mode bits and a last-modified time; a directory
  additionally owns the collection of its direct children's names (not full paths).
  Entries are objects referred to by address, so that the table, the handles and the
  rename algorithm can share one entry.
\<close>

type_synonym addr = nat

record FileData =
  fd_name :: string
  fd_data :: "8 word list"
  fd_memDir :: "string list option"
  fd_dir :: bool
  fd_mode :: FileMode
  fd_modtime :: int

text \<open>Modelled from the spec: \<open>mem.CreateFile\<close>, a fresh zero-length file entry.\<close>

definition CreateFile :: "string \<Rightarrow> int \<Rightarrow> FileData" where
  "CreateFile nm now =
     \<lparr>fd_name = nm, fd_data = [], fd_memDir = None, fd_dir = False,
      fd_mode = ModeTemporary, fd_modtime = now\<rparr>"

text \<open>Modelled from the spec: \<open>mem.CreateDir\<close>, a fresh directory entry without children.\<close>

definition CreateDir :: "string \<Rightarrow> FileData" where
  "CreateDir nm =
     \<lparr>fd_name = nm, fd_data = [], fd_memDir = Some [], fd_dir = True,
      fd_mode = 0, fd_modtime = 0\<rparr>"

text \<open>
  Modelled from the spec: the name a directory records for a child, and that a listing
  reports, is the last element of the child's path.
\<close>

definition baseName :: "FileData \<Rightarrow> string" where
  "baseName f = snd (Split (fd_name f))"

text \<open>Modelled from the spec: \<open>mem.InitializeDir\<close> gives an entry a child collection.\<close>

definition InitializeDir_fd :: "FileData \<Rightarrow> FileData" where
  "InitializeDir_fd d =
     (if fd_memDir d = None then d\<lparr>fd_dir := True, fd_memDir := Some []\<rparr> else d)"

text \<open>Modelled from the spec: register adds the child's name to the parent's child set.\<close>

definition AddToMemDir_fd :: "FileData \<Rightarrow> string \<Rightarrow> FileData" where
  "AddToMemDir_fd d child =
     (case fd_memDir d of
        None \<Rightarrow> d
      | Some cs \<Rightarrow> d\<lparr>fd_memDir := Some (List.insert child cs)\<rparr>)"

text \<open>Modelled from the spec: unregister removes the child's name from the parent's child set.\<close>

definition RemoveFromMemDir_fd :: "FileData \<Rightarrow> string \<Rightarrow> FileData" where
  "RemoveFromMemDir_fd d child =
     (case fd_memDir d of
        None \<Rightarrow> d
      | Some cs \<Rightarrow> d\<lparr>fd_memDir := Some (removeAll child cs)\<rparr>)"

text \<open>
  Modelled from the spec: \<open>mem.ReadMemDir\<close> lists the names of a directory's children and
  fails with \<open>ErrNotDir\<close> on an entry that is not a directory.
\<close>

definition ReadMemDir_fd :: "FileData \<Rightarrow> errno + string list" where
  "ReadMemDir_fd f =
     (if fd_dir f then Inr (case fd_memDir f of None \<Rightarrow> [] | Some cs \<Rightarrow> cs)
      else Inl ErrNotDir)"

text \<open>Modelled from the spec: a file handle refers to an entry and may be read-only.\<close>

record File =
  fileData :: addr
  readOnly :: bool
  at :: nat

definition NewFileHandle :: "addr \<Rightarrow> File" where
  "NewFileHandle f = \<lparr>fileData = f, readOnly = False, at = 0\<rparr>"

definition NewReadOnlyFileHandle :: "addr \<Rightarrow> File" where
  "NewReadOnlyFileHandle f = \<lparr>fileData = f, readOnly = True, at = 0\<rparr>"

section \<open>The in-memory filesystem\<close>

text \<open>
  \<open>MemMapFs\<close>: the table \<open>data\<close> from canonical paths to entries and the one-time
  initialisation gate.  The entries live in \<open>fs_heap\<close>; \<open>fs_next\<close> is the next unused
  address.  The locks are not modelled: every operation runs alone.  An operation
  passes the initialisation gate (\<open>getData\<close>) where the source first accesses the table.
\<close>

record MemMapFs =
  fs_data :: "string \<rightharpoonup> addr"
  fs_heap :: "addr \<Rightarrow> FileData"
  fs_next :: addr
  fs_init :: bool

text \<open>\<open>NewMemMapFs\<close>: nothing is allocated before the first access.\<close>

definition NewMemMapFs :: MemMapFs where
  "NewMemMapFs =
     \<lparr>fs_data = Map.empty, fs_heap = (\<lambda>_. CreateFile [] 0), fs_next = 0, fs_init = False\<rparr>"

definition alloc :: "FileData \<Rightarrow> MemMapFs \<Rightarrow> addr \<times> MemMapFs" where
  "alloc f m =
     (fs_next m, m\<lparr>fs_heap := (fs_heap m)(fs_next m := f), fs_next := Suc (fs_next m)\<rparr>)"

definition updEntry :: "addr \<Rightarrow> (FileData \<Rightarrow> FileData) \<Rightarrow> MemMapFs \<Rightarrow> MemMapFs" where
  "updEntry a g m = m\<lparr>fs_heap := (fs_heap m)(a := g (fs_heap m a))\<rparr>"

text \<open>Modelled from the spec: the setters of package \<open>mem\<close>, acting on the shared entry.\<close>

definition SetMode :: "addr \<Rightarrow> FileMode \<Rightarrow> MemMapFs \<Rightarrow> MemMapFs" where
  "SetMode f md m = updEntry f (\<lambda>d. d\<lparr>fd_mode := md\<rparr>) m"

definition SetModTime :: "addr \<Rightarrow> int \<Rightarrow> MemMapFs \<Rightarrow> MemMapFs" where
  "SetModTime f mtime m = updEntry f (\<lambda>d. d\<lparr>fd_modtime := mtime\<rparr>) m"

definition ChangeFileName :: "addr \<Rightarrow> string \<Rightarrow> MemMapFs \<Rightarrow> MemMapFs" where
  "ChangeFileName f newname m = updEntry f (\<lambda>d. d\<lparr>fd_name := newname\<rparr>) m"

definition InitializeDir :: "addr \<Rightarrow> MemMapFs \<Rightarrow> MemMapFs" where
  "InitializeDir d m = updEntry d InitializeDir_fd m"

definition AddToMemDir :: "addr \<Rightarrow> addr \<Rightarrow> MemMapFs \<Rightarrow> MemMapFs" where
  "AddToMemDir d f m = updEntry d (\<lambda>e. AddToMemDir_fd e (baseName (fs_heap m f))) m"

definition RemoveFromMemDir :: "addr \<Rightarrow> addr \<Rightarrow> MemMapFs \<Rightarrow> MemMapFs" where
  "RemoveFromMemDir d f m = updEntry d (\<lambda>e. RemoveFromMemDir_fd e (baseName (fs_heap m f))) m"

definition ReadMemDir :: "MemMapFs \<Rightarrow> addr \<Rightarrow> errno + string list" where
  "ReadMemDir m f = ReadMemDir_fd (fs_heap m f)"

text \<open>Modelled from the spec: the metadata view of an entry (\<open>mem.GetFileInfo\<close>).\<close>

definition IsDir :: "MemMapFs \<Rightarrow> addr \<Rightarrow> bool" where
  "IsDir m f = fd_dir (fs_heap m f)"

definition Mode :: "MemMapFs \<Rightarrow> addr \<Rightarrow> FileMode" where
  "Mode m f = fd_mode (fs_heap m f)"

text \<open>
  Modelled from the spec: truncating through a handle cuts the shared content in place
  and stamps the modification time; a read-only handle refuses.
\<close>

definition Truncate :: "int \<Rightarrow> File \<Rightarrow> nat \<Rightarrow> MemMapFs \<Rightarrow> (failure + unit) \<times> MemMapFs" where
  "Truncate now file n m =
     (if readOnly file
      then (Inl (PathError ''truncate'' (fd_name (fs_heap m (fileData file))) ErrReadOnlyHandle), m)
      else (Inr (),
            updEntry (fileData file)
              (\<lambda>d. d\<lparr>fd_data := take n (fd_data d) @ replicate (n - length (fd_data d)) 0,
                     fd_modtime := now\<rparr>) m))"

text \<open>Modelled from the spec: seeking a handle to the end of the content.\<close>

definition SeekEnd :: "File \<Rightarrow> MemMapFs \<Rightarrow> File" where
  "SeekEnd file m = file\<lparr>at := length (fd_data (fs_heap m (fileData file)))\<rparr>"

text \<open>
  \<open>getData\<close>: the first access creates the table with the root directory in it; later
  accesses return the table as it is.
\<close>

definition getData :: "MemMapFs \<Rightarrow> MemMapFs" where
  "getData m =
     (if fs_init m then m
      else
        let (root, m1) = alloc (CreateDir FilePathSeparator) m;
            m2 = SetMode root (ModeDir OR 0x1ED) m1
        in m2\<lparr>fs_data := [FilePathSeparator \<mapsto> root], fs_init := True\<rparr>)"

definition lockfreeOpen :: "MemMapFs \<Rightarrow> string \<Rightarrow> failure + addr" where
  "lockfreeOpen m name0 =
     (let nm = normalizePath name0
      in case fs_data m nm of
           Some f \<Rightarrow> Inr f
         | None \<Rightarrow> Inl (Bare ErrFileNotFound))"

definition open' :: "MemMapFs \<Rightarrow> string \<Rightarrow> failure + addr" where
  "open' m name0 =
     (let nm = normalizePath name0
      in case fs_data m nm of
           None \<Rightarrow> Inl (PathError ''open'' nm ErrFileNotFound)
         | Some f \<Rightarrow> Inr f)"

definition Open :: "MemMapFs \<Rightarrow> string \<Rightarrow> failure + File" where
  "Open m nm =
     (case open' m nm of
        Inr f \<Rightarrow> Inr (NewReadOnlyFileHandle f)
      | Inl err \<Rightarrow> Inl err)"

definition openWrite :: "MemMapFs \<Rightarrow> string \<Rightarrow> failure + File" where
  "openWrite m nm =
     (case open' m nm of
        Inr f \<Rightarrow> Inr (NewFileHandle f)
      | Inl err \<Rightarrow> Inl err)"

text \<open>\<open>Stat\<close>: the metadata view is the entry itself.\<close>

definition Stat :: "MemMapFs \<Rightarrow> string \<Rightarrow> failure + addr" where
  "Stat m nm =
     (case Open m nm of
        Inl err \<Rightarrow> Inl err
      | Inr f \<Rightarrow> Inr (fileData f))"

definition requireParentDirectory :: "string \<Rightarrow> string \<Rightarrow> MemMapFs \<Rightarrow> failure + unit" where
  "requireParentDirectory operationName path0 m =
     (let path = normalizePath path0;
          parentPath = Dir path
      in case Stat m parentPath of
           Inl parentErr \<Rightarrow>
             if IsNotExist parentErr then Inl (PathError operationName path ErrNotExist)
             else Inl parentErr
         | Inr parent \<Rightarrow>
             if \<not> IsDir m parent then Inl (PathError operationName path ErrNotDir)
             else Inr ())"

definition findParent :: "MemMapFs \<Rightarrow> addr \<Rightarrow> addr option" where
  "findParent m f =
     (let pdir = fst (Split (fd_name (fs_heap m f)));
          pdir' = Clean pdir
      in case lockfreeOpen m pdir' of
           Inl _ \<Rightarrow> None
         | Inr pfile \<Rightarrow> Some pfile)"

text \<open>
  \<open>registerWithParent\<close>; the callers pass an entry they have just created or looked up,
  never the nil pointer.
\<close>

definition registerWithParent :: "addr \<Rightarrow> MemMapFs \<Rightarrow> (failure + unit) \<times> MemMapFs" where
  "registerWithParent f m =
     (case findParent m f of
        None \<Rightarrow> (Inl (Panic (''parent does not exist for file: '' @ fd_name (fs_heap m f))), m)
      | Some parent \<Rightarrow> (Inr (), AddToMemDir parent f (InitializeDir parent m)))"

definition unRegisterWithParent :: "string \<Rightarrow> MemMapFs \<Rightarrow> (failure + unit) \<times> MemMapFs" where
  "unRegisterWithParent fileName m =
     (case lockfreeOpen m fileName of
        Inl err \<Rightarrow> (Inl err, m)
      | Inr f \<Rightarrow>
          (case findParent m f of
             None \<Rightarrow> (Inl (Panic (''parent of '' @ fd_name (fs_heap m f) @ '' is nil'')), m)
           | Some parent \<Rightarrow> (Inr (), RemoveFromMemDir parent f m)))"

text \<open>The text of an error, as \<open>err.Error()\<close> prints it.\<close>

fun failureText :: "failure \<Rightarrow> string" where
  "failureText (PathError opn path e) = opn @ '' '' @ path @ '': '' @ errorText e"
| "failureText (Bare e) = errorText e"
| "failureText (Panic msg) = msg"

text \<open>A caller that panics on an error; a panic of the callee passes through.\<close>

fun panicWith :: "string \<Rightarrow> failure \<Rightarrow> failure" where
  "panicWith prefix (Panic msg) = Panic msg"
| "panicWith prefix err = Panic (prefix @ failureText err)"

text \<open>
  \<open>lockFreeRemoveAll\<close> and its loop over the children.  The recursion follows the child
  names an entry records, so it is bounded by \<open>fuel\<close>: \<open>None\<close> means the bound was too
  small.  The deferred deletion of the path runs when the function returns and also when
  a recursive call panics.
\<close>

fun lockFreeRemoveAll :: "nat \<Rightarrow> string \<Rightarrow> MemMapFs \<Rightarrow> ((failure + unit) \<times> MemMapFs) option"
  and lockFreeRemoveAll_children ::
    "nat \<Rightarrow> string \<Rightarrow> string list \<Rightarrow> MemMapFs \<Rightarrow> ((failure + unit) \<times> MemMapFs) option"
where
  "lockFreeRemoveAll 0 path0 m = None"
| "lockFreeRemoveAll (Suc fuel) path0 m =
     (let path = normalizePath path0
      in case lockfreeOpen m path of
           Inl err \<Rightarrow>
             if err = Bare ErrFileNotFound then Some (Inr (), m)
             else Some (Inl (Panic ''impossible case: other err from lockfreeOpen''), m)
         | Inr f \<Rightarrow>
             (case unRegisterWithParent path m of
                (Inl err, m1) \<Rightarrow>
                  Some (Inl (panicWith ''failed to unregister with parent: '' err), m1)
              | (Inr _, m1) \<Rightarrow>
                  (case ReadMemDir m1 f of
                     Inl _ \<Rightarrow> Some (Inr (), m1\<lparr>fs_data := (fs_data m1)(path := None)\<rparr>)
                   | Inr dir \<Rightarrow>
                       (case lockFreeRemoveAll_children fuel path dir m1 of
                          None \<Rightarrow> None
                        | Some (r, m2) \<Rightarrow>
                            Some (r, m2\<lparr>fs_data := (fs_data m2)(path := None)\<rparr>)))))"
| "lockFreeRemoveAll_children fuel path [] m = Some (Inr (), m)"
| "lockFreeRemoveAll_children fuel path (f # fs) m =
     (case lockFreeRemoveAll fuel (Join path f) m of
        None \<Rightarrow> None
      | Some (Inl p, m1) \<Rightarrow> Some (Inl p, m1)
      | Some (Inr _, m1) \<Rightarrow> lockFreeRemoveAll_children fuel path fs m1)"

definition RemoveAll :: "nat \<Rightarrow> string \<Rightarrow> MemMapFs \<Rightarrow> ((failure + unit) \<times> MemMapFs) option" where
  "RemoveAll fuel path m0 = lockFreeRemoveAll fuel path (getData m0)"

definition Create ::
  "nat \<Rightarrow> int \<Rightarrow> string \<Rightarrow> MemMapFs \<Rightarrow> ((failure + File) \<times> MemMapFs) option" where
  "Create fuel now name0 m0 =
     (let m = getData m0;
          nm = normalizePath name0
      in case requireParentDirectory ''open'' nm m of
           Inl err \<Rightarrow> Some (Inl err, m)
         | Inr _ \<Rightarrow>
             (case Stat m nm of
                Inl err \<Rightarrow>
                  if IsNotExist err then
                    (case lockFreeRemoveAll fuel nm m of
                       None \<Rightarrow> None
                     | Some (Inl p, m1) \<Rightarrow> Some (Inl p, m1)
                     | Some (Inr _, m1) \<Rightarrow>
                         (let (file, m2) = alloc (CreateFile nm now) m1;
                              m3 = SetMode file createPerm m2;
                              m4 = m3\<lparr>fs_data := (fs_data m3)(nm \<mapsto> file)\<rparr>
                          in case registerWithParent file m4 of
                               (Inl p, m5) \<Rightarrow> Some (Inl p, m5)
                             | (Inr _, m5) \<Rightarrow> Some (Inr (NewFileHandle file), m5)))
                  else Some (Inl err, m)
              | Inr info \<Rightarrow>
                  if IsDir m info then Some (Inl (PathError ''open'' nm ErrIsDir), m)
                  else
                    (case fs_data m nm of
                       None \<Rightarrow> Some (Inl (Panic ''nil pointer dereference''), m)
                     | Some f \<Rightarrow>
                         (let file = NewFileHandle f
                          in case Truncate now file 0 m of
                               (Inl err, m1) \<Rightarrow> Some (Inl err, m1)
                             | (Inr _, m1) \<Rightarrow> Some (Inr file, m1)))))"

definition unrestrictedChmod :: "string \<Rightarrow> FileMode \<Rightarrow> MemMapFs \<Rightarrow> (failure + unit) \<times> MemMapFs" where
  "unrestrictedChmod name0 md m =
     (let nm = normalizePath name0
      in case fs_data m nm of
           None \<Rightarrow> (Inl (PathError ''chmod'' nm ErrFileNotFound), m)
         | Some f \<Rightarrow> (Inr (), SetMode f md m))"

definition Chmod :: "string \<Rightarrow> FileMode \<Rightarrow> MemMapFs \<Rightarrow> (failure + unit) \<times> MemMapFs" where
  "Chmod name0 mode0 m0 =
     (let m = getData m0;
          nm = normalizePath name0;
          md = mode0 AND chmodBits
      in case fs_data m nm of
           None \<Rightarrow> (Inl (PathError ''chmod'' nm ErrFileNotFound), m)
         | Some f \<Rightarrow>
             (let prevOtherBits = Mode m f AND NOT chmodBits
              in unrestrictedChmod nm (prevOtherBits OR md) m))"

definition Chtimes :: "string \<Rightarrow> int \<Rightarrow> int \<Rightarrow> MemMapFs \<Rightarrow> (failure + unit) \<times> MemMapFs" where
  "Chtimes name0 atime mtime m0 =
     (let m = getData m0;
          nm = normalizePath name0
      in case fs_data m nm of
           None \<Rightarrow> (Inl (PathError ''chtimes'' nm ErrFileNotFound), m)
         | Some f \<Rightarrow> (Inr (), SetModTime f mtime m))"

definition Mkdir :: "string \<Rightarrow> FileMode \<Rightarrow> MemMapFs \<Rightarrow> (failure + unit) \<times> MemMapFs" where
  "Mkdir name0 perm0 m0 =
     (let m = getData m0;
          perm = perm0 AND chmodBits;
          nm = normalizePath name0
      in if fs_data m nm \<noteq> None then (Inl (PathError ''mkdir'' nm ErrFileExists), m)
         else
           (case requireParentDirectory ''mkdir'' nm m of
              Inl err \<Rightarrow> (Inl err, m)
            | Inr _ \<Rightarrow>
                (let (item, m1) = alloc (CreateDir nm) m;
                     m2 = m1\<lparr>fs_data := (fs_data m1)(nm \<mapsto> item)\<rparr>
                 in case registerWithParent item m2 of
                      (Inl p, m3) \<Rightarrow> (Inl p, m3)
                    | (Inr _, m3) \<Rightarrow> unrestrictedChmod nm (perm OR ModeDir) m3)))"

text \<open>
  The loop of \<open>findMissingDirs\<close> walks from the path towards the root.  It ends when
  \<open>filepath.Dir\<close> reaches the root; \<open>None\<close> is a walk that never ends.  The table is
  first accessed by the \<open>Stat\<close> of the loop body, so a walk that starts at the root
  returns without passing the initialisation gate.
\<close>

partial_function (option) findMissingDirs_loop ::
  "MemMapFs \<Rightarrow> string \<Rightarrow> string list \<Rightarrow> ((failure + string list) \<times> MemMapFs) option" where
  "findMissingDirs_loop m currentPath missingDirs =
     (if currentPath = FilePathSeparator then Some (Inr missingDirs, m)
      else
        (case Stat (getData m) currentPath of
           Inl err \<Rightarrow>
             if IsNotExist err
             then findMissingDirs_loop (getData m) (Dir currentPath) (missingDirs @ [currentPath])
             else Some (Inl err, getData m)
         | Inr info \<Rightarrow>
             if IsDir (getData m) info then Some (Inr missingDirs, getData m)
             else Some (Inl (PathError ''mkdirall'' currentPath ErrNotDir), getData m)))"

declare findMissingDirs_loop.simps [code]

definition findMissingDirs ::
  "MemMapFs \<Rightarrow> string \<Rightarrow> ((failure + string list) \<times> MemMapFs) option" where
  "findMissingDirs m path0 = findMissingDirs_loop m (normalizePath path0) []"

text \<open>The creation loop of \<open>MkdirAll\<close>, over the missing directories nearest the root first.\<close>

fun MkdirAll_loop :: "FileMode \<Rightarrow> string list \<Rightarrow> MemMapFs \<Rightarrow> (failure + unit) \<times> MemMapFs" where
  "MkdirAll_loop perm [] m = (Inr (), m)"
| "MkdirAll_loop perm (d # ds) m =
     (case Mkdir d perm m of
        (Inl err, m1) \<Rightarrow> (Inl err, m1)
      | (Inr _, m1) \<Rightarrow> MkdirAll_loop perm ds m1)"

definition MkdirAll ::
  "string \<Rightarrow> FileMode \<Rightarrow> MemMapFs \<Rightarrow> ((failure + unit) \<times> MemMapFs) option" where
  "MkdirAll path perm0 m0 =
     (let perm = perm0 AND chmodBits
      in case findMissingDirs m0 path of
           None \<Rightarrow> None
         | Some (Inl err, m) \<Rightarrow> Some (Inl err, m)
         | Some (Inr missingDirs, m) \<Rightarrow> Some (MkdirAll_loop perm (rev missingDirs) m))"

definition Remove :: "string \<Rightarrow> MemMapFs \<Rightarrow> (failure + unit) \<times> MemMapFs" where
  "Remove name0 m0 =
     (let m = getData m0;
          nm = normalizePath name0
      in case fs_data m nm of
           None \<Rightarrow> (Inl (PathError ''remove'' nm ErrNotExist), m)
         | Some f \<Rightarrow>
             (case (if IsDir m f then ReadMemDir m f else Inr []) of
                Inl err \<Rightarrow> (Inl (Panic (''Directory failed to list entries: '' @ errorText err)), m)
              | Inr dir \<Rightarrow>
                  if length dir \<noteq> 0 then (Inl (PathError ''remove'' nm ErrNotEmpty), m)
                  else
                    (case unRegisterWithParent nm m of
                       (Inl (Panic msg), m1) \<Rightarrow> (Inl (Panic msg), m1)
                     | (Inl (PathError opn path e), m1) \<Rightarrow> (Inl (PathError ''remove'' nm e), m1)
                     | (Inl (Bare e), m1) \<Rightarrow> (Inl (PathError ''remove'' nm e), m1)
                     | (Inr _, m1) \<Rightarrow> (Inr (), m1\<lparr>fs_data := (fs_data m1)(nm := None)\<rparr>))))"

text \<open>\<open>lockFreeRename\<close> and its loop over the children recorded before the rename.\<close>

fun lockFreeRename ::
    "nat \<Rightarrow> string \<Rightarrow> string \<Rightarrow> MemMapFs \<Rightarrow> ((failure + unit) \<times> MemMapFs) option"
  and lockFreeRename_children ::
    "nat \<Rightarrow> string \<Rightarrow> string \<Rightarrow> string list \<Rightarrow> MemMapFs \<Rightarrow> ((failure + unit) \<times> MemMapFs) option"
where
  "lockFreeRename 0 oldname newname m = None"
| "lockFreeRename (Suc fuel) oldname newname m =
     (case fs_data m oldname of
        None \<Rightarrow> Some (Inl (Panic (''File not found: '' @ oldname)), m)
      | Some f \<Rightarrow>
          (let m1 = m\<lparr>fs_data := (fs_data m)(newname \<mapsto> f)\<rparr>;
               dir = (case ReadMemDir m1 f of Inl _ \<Rightarrow> [] | Inr d \<Rightarrow> d)
           in case unRegisterWithParent oldname m1 of
                (Inl err, m2) \<Rightarrow> Some (Inl (panicWith [] err), m2)
              | (Inr _, m2) \<Rightarrow>
                  (let m3 = ChangeFileName f newname m2
                   in case registerWithParent f m3 of
                        (Inl p, m4) \<Rightarrow> Some (Inl p, m4)
                      | (Inr _, m4) \<Rightarrow>
                          (case lockFreeRename_children fuel oldname newname dir m4 of
                             None \<Rightarrow> None
                           | Some (Inl p, m5) \<Rightarrow> Some (Inl p, m5)
                           | Some (Inr _, m5) \<Rightarrow>
                               Some (Inr (), m5\<lparr>fs_data := (fs_data m5)(oldname := None)\<rparr>)))))"
| "lockFreeRename_children fuel oldname newname [] m = Some (Inr (), m)"
| "lockFreeRename_children fuel oldname newname (f # fs) m =
     (case lockFreeRename fuel (Join oldname f) (Join newname f) m of
        None \<Rightarrow> None
      | Some (Inl p, m1) \<Rightarrow> Some (Inl p, m1)
      | Some (Inr _, m1) \<Rightarrow> lockFreeRename_children fuel oldname newname fs m1)"

text \<open>
  \<open>Rename\<close>.  The comparison of the two names and the test that the new path is not
  inside the old one come before the first access to the table, so these two returns
  leave the filesystem as it was, uninitialised if it was so.
\<close>

definition Rename ::
  "nat \<Rightarrow> string \<Rightarrow> string \<Rightarrow> MemMapFs \<Rightarrow> ((failure + unit) \<times> MemMapFs) option" where
  "Rename fuel oldname0 newname0 m0 =
     (let oldname = normalizePath oldname0;
          newname = normalizePath newname0
      in if oldname = newname then Some (Inr (), m0)
         else if HasPrefix newname (oldname @ FilePathSeparator)
         then Some (Inl (PathError ''rename'' newname ErrInvalid), m0)
         else
           (let m = getData m0
            in if fs_data m oldname = None
               then Some (Inl (PathError ''rename'' oldname ErrFileNotFound), m)
               else
                 (let newParentDir = Dir newname
                  in if fs_data m newParentDir = None
                     then Some (Inl (PathError ''rename'' newParentDir ErrFileNotFound), m)
                     else
                       (case lockFreeRemoveAll fuel newname m of
                          None \<Rightarrow> None
                        | Some (Inl p, m1) \<Rightarrow> Some (Inl p, m1)
                        | Some (Inr _, m1) \<Rightarrow> lockFreeRename fuel oldname newname m1))))"

text \<open>
  \<open>OpenFile\<close>.  The early returns of the source are the branches that stop with an
  error; \<open>chmod\<close> records that the file was created by this call.
\<close>

definition OpenFile ::
  "nat \<Rightarrow> int \<Rightarrow> string \<Rightarrow> int \<Rightarrow> FileMode \<Rightarrow> MemMapFs \<Rightarrow> ((failure + File) \<times> MemMapFs) option" where
  "OpenFile fuel now name0 flag perm0 m0 =
     (let m = getData m0;
          perm = perm0 AND chmodBits;
          r0 = openWrite m name0
      in if \<not> isl r0 \<and> flag AND O_EXCL > 0
         then Some (Inl (PathError ''open'' name0 ErrFileExists), m)
         else
           (case (if isl r0 \<and> IsNotExist (projl r0) \<and> flag AND O_CREATE > 0
                  then map_option (\<lambda>(r, m1). (r, m1, True)) (Create fuel now name0 m)
                  else Some (r0, m, False)) of
              None \<Rightarrow> None
            | Some (Inl err, m1, chmod) \<Rightarrow> Some (Inl err, m1)
            | Some (Inr file, m1, chmod) \<Rightarrow>
                (let file1 = (if flag = O_RDONLY then NewReadOnlyFileHandle (fileData file) else file);
                     file2 = (if flag AND O_APPEND > 0 then SeekEnd file1 m1 else file1)
                 in case (if flag AND O_TRUNC > 0 \<and> flag AND (O_RDWR OR O_WRONLY) > 0
                          then Truncate now file2 0 m1 else (Inr (), m1)) of
                      (Inl err, m2) \<Rightarrow> Some (Inl err, m2)
                    | (Inr _, m2) \<Rightarrow>
                        if chmod then
                          (case unrestrictedChmod name0 perm m2 of
                             (Inl err, m3) \<Rightarrow> Some (Inl err, m3)
                           | (Inr _, m3) \<Rightarrow> Some (Inr file2, m3))
                        else Some (Inr file2, m2))))"

section \<open>The archive-backed filesystem (package zipfs)\<close>

text \<open>
  An entry of the archive index: its header name and whether its metadata says it is a
  directory.  The table maps a directory path to the entries in it, by name.  Logging to
  the console is not modelled.
\<close>

record ZipEntry =
  ze_Name :: string
  ze_IsDir :: bool

record Fs =
  files :: "string \<rightharpoonup> (string \<rightharpoonup> ZipEntry)"

record ZipFile =
  zf_zipfile :: "ZipEntry option"
  zf_isdir :: bool

definition zipfs_normalizePath :: "string \<Rightarrow> string" where
  "zipfs_normalizePath path0 =
     (let path = (if length path0 = 0 \<or> hd path0 \<noteq> CHR ''/'' then ''/'' @ path0 else path0)
      in Clean path)"

definition splitpath :: "string \<Rightarrow> string \<times> string" where
  "splitpath name0 =
     (let nm = zipfs_normalizePath name0;
          (dir, file) = Split nm
      in (Clean dir, file))"

definition zipfs_Create :: "string \<Rightarrow> Fs \<Rightarrow> (failure + ZipFile) \<times> Fs" where
  "zipfs_Create nm fs = (Inl (Bare EPERM), fs)"

definition zipfs_Mkdir :: "string \<Rightarrow> FileMode \<Rightarrow> Fs \<Rightarrow> (failure + unit) \<times> Fs" where
  "zipfs_Mkdir nm perm fs = (Inl (Bare EPERM), fs)"

definition zipfs_MkdirAll :: "string \<Rightarrow> FileMode \<Rightarrow> Fs \<Rightarrow> (failure + unit) \<times> Fs" where
  "zipfs_MkdirAll path perm fs = (Inl (Bare EPERM), fs)"

definition zipfs_Open :: "string \<Rightarrow> Fs \<Rightarrow> (failure + ZipFile) \<times> Fs" where
  "zipfs_Open nm fs =
     (let (d, f) = splitpath nm
      in if f = [] then (Inr \<lparr>zf_zipfile = None, zf_isdir = True\<rparr>, fs)
         else
           (case files fs d of
              None \<Rightarrow> (Inl (PathError ''stat'' nm ENOENT), fs)
            | Some entries \<Rightarrow>
                (case entries f of
                   None \<Rightarrow> (Inl (PathError ''stat'' nm ENOENT), fs)
                 | Some file \<Rightarrow> (Inr \<lparr>zf_zipfile = Some file, zf_isdir = ze_IsDir file\<rparr>, fs))))"

definition zipfs_OpenFile :: "string \<Rightarrow> int \<Rightarrow> FileMode \<Rightarrow> Fs \<Rightarrow> (failure + ZipFile) \<times> Fs" where
  "zipfs_OpenFile nm flag perm fs =
     (if flag \<noteq> O_RDONLY then (Inl (Bare EPERM), fs)
      else zipfs_Open nm fs)"

definition zipfs_Remove :: "string \<Rightarrow> Fs \<Rightarrow> (failure + unit) \<times> Fs" where
  "zipfs_Remove nm fs = (Inl (Bare EPERM), fs)"

definition zipfs_RemoveAll :: "string \<Rightarrow> Fs \<Rightarrow> (failure + unit) \<times> Fs" where
  "zipfs_RemoveAll path fs = (Inl (Bare EPERM), fs)"

definition zipfs_Rename :: "string \<Rightarrow> string \<Rightarrow> Fs \<Rightarrow> (failure + unit) \<times> Fs" where
  "zipfs_Rename oldname newname fs = (Inl (Bare EPERM), fs)"

definition zipfs_Chmod :: "string \<Rightarrow> FileMode \<Rightarrow> Fs \<Rightarrow> (failure + unit) \<times> Fs" where
  "zipfs_Chmod nm md fs = (Inl (Bare EPERM), fs)"

definition zipfs_Chtimes :: "string \<Rightarrow> int \<Rightarrow> int \<Rightarrow> Fs \<Rightarrow> (failure + unit) \<times> Fs" where
  "zipfs_Chtimes nm atime mtime fs = (Inl (Bare EPERM), fs)"

section \<open>Sequences of operations and the invariants of the table\<close>

datatype operation =
    OpCreate int string
  | OpMkdir string FileMode
  | OpMkdirAll string FileMode
  | OpOpenFile int string int FileMode
  | OpRemove string
  | OpRemoveAll string
  | OpRename string string
  | OpChmod string FileMode
  | OpChtimes string int int

definition dropHandle :: "((failure + File) \<times> MemMapFs) option \<Rightarrow> ((failure + unit) \<times> MemMapFs) option" where
  "dropHandle r = map_option (\<lambda>(x, m). (map_sum id (\<lambda>_. ()) x, m)) r"

fun perform :: "nat \<Rightarrow> operation \<Rightarrow> MemMapFs \<Rightarrow> ((failure + unit) \<times> MemMapFs) option" where
  "perform fuel (OpCreate now nm) m = dropHandle (Create fuel now nm m)"
| "perform fuel (OpMkdir nm perm) m = Some (Mkdir nm perm m)"
| "perform fuel (OpMkdirAll path perm) m = MkdirAll path perm m"
| "perform fuel (OpOpenFile now nm flag perm) m = dropHandle (OpenFile fuel now nm flag perm m)"
| "perform fuel (OpRemove nm) m = Some (Remove nm m)"
| "perform fuel (OpRemoveAll path) m = RemoveAll fuel path m"
| "perform fuel (OpRename oldname newname) m = Rename fuel oldname newname m"
| "perform fuel (OpChmod nm md) m = Some (Chmod nm md m)"
| "perform fuel (OpChtimes nm atime mtime) m = Some (Chtimes nm atime mtime m)"

fun isPanic :: "failure + 'a \<Rightarrow> bool" where
  "isPanic (Inl (Panic _)) = True"
| "isPanic _ = False"

text \<open>
  The states a caller can reach from the initial, root-only state by operations that
  return (with success or with an error) rather than panic.
\<close>

inductive reachable :: "MemMapFs \<Rightarrow> bool" where
  initial: "reachable (getData NewMemMapFs)"
| step: "reachable m \<Longrightarrow> perform fuel opn m = Some (r, m') \<Longrightarrow> \<not> isPanic r \<Longrightarrow> reachable m'"

text \<open>The child names a directory entry records.\<close>

definition recordedChildren :: "MemMapFs \<Rightarrow> addr \<Rightarrow> string set" where
  "recordedChildren m f = (case fd_memDir (fs_heap m f) of None \<Rightarrow> {} | Some cs \<Rightarrow> set cs)"

text \<open>The names of the table entries, other than \<open>d\<close> itself, whose parent path is \<open>d\<close>.\<close>

definition tableChildren :: "MemMapFs \<Rightarrow> string \<Rightarrow> string set" where
  "tableChildren m d = {snd (Split p) | p. p \<in> dom (fs_data m) \<and> p \<noteq> d \<and> Dir p = d}"

text \<open>Symmetry: every directory of the table records exactly its table children.\<close>

definition symmetric :: "MemMapFs \<Rightarrow> bool" where
  "symmetric m =
     (\<forall>d. case fs_data m d of
             None \<Rightarrow> True
           | Some f \<Rightarrow> if fd_dir (fs_heap m f) then recordedChildren m f = tableChildren m d else True)"

text \<open>The root path is in the table and is a directory.\<close>

definition rootExists :: "MemMapFs \<Rightarrow> bool" where
  "rootExists m =
     (case fs_data m FilePathSeparator of None \<Rightarrow> False | Some f \<Rightarrow> fd_dir (fs_heap m f))"

text \<open>Every entry of the table lives at an address that has been handed out.\<close>

definition entriesAllocated :: "MemMapFs \<Rightarrow> bool" where
  "entriesAllocated m = (\<forall>p. case fs_data m p of None \<Rightarrow> True | Some f \<Rightarrow> f < fs_next m)"

text \<open>
  Two relations between the state before and after a step.  \<open>sameTable\<close>: no address was
  handed out and the table refers to no entry it did not refer to before.  \<open>grows\<close>: the
  table refers to entries it referred to before or to entries handed out in between.
\<close>

definition sameTable :: "MemMapFs \<Rightarrow> MemMapFs \<Rightarrow> bool" where
  "sameTable m m' = (fs_next m' = fs_next m \<and> fs_init m' = fs_init m \<and> ran (fs_data m') \<subseteq> ran (fs_data m))"

definition grows :: "MemMapFs \<Rightarrow> MemMapFs \<Rightarrow> bool" where
  "grows m m' =
     (fs_init m' = fs_init m \<and> fs_next m \<le> fs_next m'
      \<and> (\<forall>f \<in> ran (fs_data m'). f \<in> ran (fs_data m) \<or> (fs_next m \<le> f \<and> f < fs_next m')))"

text \<open>
  The state in which the only table entry is the former root directory, now at \<open>/x\<close>
  and recording itself under the name \<open>x\<close>.
\<close>

definition renamedRoot :: MemMapFs where
  "renamedRoot =
     \<lparr>fs_data = [''/x'' \<mapsto> 0],
      fs_heap = (\<lambda>_. CreateFile [] 0)
        (0 := \<lparr>fd_name = ''/x'', fd_data = [], fd_memDir = Some [''x''], fd_dir = True,
               fd_mode = ModeDir OR 0x1ED, fd_modtime = 0\<rparr>),
      fs_next = 1, fs_init = True\<rparr>"

text \<open>The state after creating the directory \<open>/a\<close> with permission 0755 in a new filesystem.\<close>

definition dirAFs :: MemMapFs where
  "dirAFs =
     \<lparr>fs_data = [''/'' \<mapsto> 0, ''/a'' \<mapsto> 1],
      fs_heap = (\<lambda>_. CreateFile [] 0)
        (0 := \<lparr>fd_name = ''/'', fd_data = [], fd_memDir = Some [''a''], fd_dir = True,
               fd_mode = ModeDir OR 0x1ED, fd_modtime = 0\<rparr>,
         1 := \<lparr>fd_name = ''/a'', fd_data = [], fd_memDir = Some [], fd_dir = True,
               fd_mode = 0x1ED OR ModeDir, fd_modtime = 0\<rparr>),
      fs_next = 2, fs_init = True\<rparr>"

text \<open>A state whose only entry besides the root is the file \<open>/a\<close> with the given content.\<close>

definition fileAFs :: "8 word list \<Rightarrow> int \<Rightarrow> MemMapFs" where
  "fileAFs content mtime =
     \<lparr>fs_data = [''/'' \<mapsto> 0, ''/a'' \<mapsto> 1],
      fs_heap = (\<lambda>_. CreateFile [] 0)
        (0 := \<lparr>fd_name = ''/'', fd_data = [], fd_memDir = Some [''a''], fd_dir = True,
               fd_mode = ModeDir OR 0x1ED, fd_modtime = 0\<rparr>,
         1 := \<lparr>fd_name = ''/a'', fd_data = content, fd_memDir = None, fd_dir = False,
               fd_mode = createPerm, fd_modtime = mtime\<rparr>),
      fs_next = 2, fs_init = True\<rparr>"

section \<open>Canonical paths\<close>

definition slashFree :: "string \<Rightarrow> bool" where
  "slashFree e = (CHR ''/'' \<notin> set e)"

definition proper :: "string \<Rightarrow> bool" where
  "proper e = (e \<noteq> [] \<and> e \<noteq> ''.'' \<and> e \<noteq> ''..'' \<and> slashFree e)"

text \<open>A canonical path: a slash followed by proper elements joined by slashes.\<close>

definition canonical :: "string \<Rightarrow> bool" where
  "canonical p = (\<exists>cs. list_all proper cs \<and> p = CHR ''/'' # joinSep cs)"

lemma splitSep_nonempty: "splitSep s \<noteq> []"
  by (induction s) (auto split: list.splits)

lemma splitSep_slashFree: "list_all slashFree (splitSep s)"
  by (induction s) (auto simp: slashFree_def split: list.splits)

lemma splitSep_append_slash:
  "slashFree c \<Longrightarrow> splitSep (c @ CHR ''/'' # t) = c # splitSep t"
  by (induction c) (auto simp: slashFree_def split: list.splits)

lemma splitSep_single: "slashFree c \<Longrightarrow> splitSep c = [c]"
  by (induction c) (auto simp: slashFree_def split: list.splits)

lemma splitSep_joinSep_slash:
  "list_all slashFree cs \<Longrightarrow> cs \<noteq> [] \<Longrightarrow> splitSep (joinSep cs @ CHR ''/'' # t) = cs @ splitSep t"
  by (induction cs rule: joinSep.induct) (auto simp: splitSep_append_slash)

lemma splitSep_joinSep:
  "list_all slashFree cs \<Longrightarrow> cs \<noteq> [] \<Longrightarrow> splitSep (joinSep cs) = cs"
  by (induction cs rule: joinSep.induct) (auto simp: splitSep_append_slash splitSep_single)

lemma proper_slashFree: "list_all proper cs \<Longrightarrow> list_all slashFree cs"
  by (induction cs) (auto simp: proper_def)

lemma filter_proper: "list_all proper cs \<Longrightarrow> filter (\<lambda>e. e \<noteq> [] \<and> e \<noteq> ''.'') cs = cs"
  by (induction cs) (auto simp: proper_def)

lemma pathElems_slash: "pathElems (CHR ''/'' # s) = pathElems s"
  by (simp add: pathElems_def)

lemma pathElems_joinSep: "list_all proper cs \<Longrightarrow> pathElems (joinSep cs) = cs"
  by (cases "cs = []") (simp_all add: pathElems_def splitSep_joinSep proper_slashFree filter_proper)

lemma pathElems_joinSep_slash: "list_all proper cs \<Longrightarrow> pathElems (joinSep cs @ ''/'') = cs"
  by (cases "cs = []") (simp_all add: pathElems_def splitSep_joinSep_slash proper_slashFree filter_proper)

lemma resolveDotDot_plain:
  "''..'' \<notin> set es \<Longrightarrow> resolveDotDot r out es = rev out @ es"
  by (induction es arbitrary: out) auto

lemma proper_no_dotdot: "list_all proper cs \<Longrightarrow> ''..'' \<notin> set cs"
  by (induction cs) (auto simp: proper_def)

lemma resolveDotDot_proper:
  "list_all proper out \<Longrightarrow> list_all (\<lambda>e. e \<noteq> [] \<and> e \<noteq> ''.'' \<and> slashFree e) es
     \<Longrightarrow> list_all proper (resolveDotDot True out es)"
  by (induction es arbitrary: out) (auto simp: proper_def split: list.splits)

lemma pathElems_ok: "list_all (\<lambda>e. e \<noteq> [] \<and> e \<noteq> ''.'' \<and> slashFree e) (pathElems s)"
  using splitSep_slashFree [of s] by (auto simp: pathElems_def list_all_iff)

lemma Clean_rooted:
  "Clean (CHR ''/'' # s) = CHR ''/'' # joinSep (resolveDotDot True [] (pathElems s))"
  by (simp add: Clean_def pathElems_slash)

lemma normalizePath_rooted:
  "normalizePath p = CHR ''/'' # joinSep (resolveDotDot True [] (pathElems p))"
  by (simp add: normalizePath_def FilePathSeparator_def Clean_rooted Let_def)

lemma canonical_normalizePath: "canonical (normalizePath p)"
  unfolding canonical_def normalizePath_rooted
  using resolveDotDot_proper [OF _ pathElems_ok, of "[]" p] by auto

lemma Clean_canonical: "canonical p \<Longrightarrow> Clean p = p"
  by (auto simp: canonical_def Clean_rooted pathElems_joinSep resolveDotDot_plain proper_no_dotdot)

lemma normalizePath_canonical: "canonical p \<Longrightarrow> normalizePath p = p"
  by (auto simp: canonical_def normalizePath_rooted pathElems_slash pathElems_joinSep
      resolveDotDot_plain proper_no_dotdot)

lemma normalizePath_idem: "normalizePath (normalizePath p) = normalizePath p"
  by (rule normalizePath_canonical [OF canonical_normalizePath])

lemma joinSep_snoc:
  "joinSep (xs @ [c]) = (if xs = [] then c else joinSep xs @ CHR ''/'' # c)"
  by (induction xs rule: joinSep.induct) auto

lemma takeWhile_stop: "\<forall>x\<in>set xs. P x \<Longrightarrow> \<not> P y \<Longrightarrow> takeWhile P (xs @ y # ys) = xs"
  by (induction xs) auto

lemma dropWhile_stop: "\<forall>x\<in>set xs. P x \<Longrightarrow> \<not> P y \<Longrightarrow> dropWhile P (xs @ y # ys) = y # ys"
  by (induction xs) auto

lemma Split_slash:
  "slashFree c \<Longrightarrow> Split (pre @ CHR ''/'' # c) = (pre @ ''/'', c)"
proof -
  assume "slashFree c"
  then have ok: "\<forall>x\<in>set (rev c). x \<noteq> CHR ''/''"
    by (auto simp: slashFree_def)
  have stop: "\<not> CHR ''/'' \<noteq> CHR ''/''"
    by simp
  show ?thesis
    unfolding Split_def rev_append rev.simps append_assoc append.simps
    by (simp only: takeWhile_stop [OF ok stop] dropWhile_stop [OF ok stop]) simp
qed

lemma Dir_canonical_snoc:
  assumes "list_all proper (xs @ [c])"
  shows "Dir (CHR ''/'' # joinSep (xs @ [c])) = CHR ''/'' # joinSep xs"
proof -
  have c: "slashFree c" and xs: "list_all proper xs"
    using assms by (auto simp: proper_def)
  show ?thesis
  proof (cases "xs = []")
    case True
    have "Split (CHR ''/'' # c) = (''/'', c)"
      using Split_slash [OF c, of "[]"] by simp
    then show ?thesis using True by (simp add: Dir_def Clean_rooted pathElems_def)
  next
    case False
    have "Split ((CHR ''/'' # joinSep xs) @ CHR ''/'' # c) = ((CHR ''/'' # joinSep xs) @ ''/'', c)"
      by (rule Split_slash [OF c])
    then show ?thesis using False xs
      by (simp add: Dir_def joinSep_snoc Clean_rooted pathElems_joinSep_slash
          resolveDotDot_plain proper_no_dotdot)
  qed
qed

lemma Dir_root: "Dir ''/'' = ''/''"
  by (simp add: Dir_def Split_def Clean_rooted pathElems_def)

lemma canonical_Dir: "canonical p \<Longrightarrow> canonical (Dir p)"
proof -
  assume "canonical p"
  then obtain cs where cs: "list_all proper cs" "p = CHR ''/'' # joinSep cs"
    by (auto simp: canonical_def)
  show ?thesis
  proof (cases cs rule: rev_cases)
    case Nil
    then show ?thesis using cs Dir_root by (auto simp: canonical_def intro: exI [of _ "[]"])
  next
    case (snoc xs c)
    then show ?thesis using cs Dir_canonical_snoc [of xs c]
      by (auto simp: canonical_def)
  qed
qed

lemma Dir_shorter:
  assumes "canonical p" "p \<noteq> ''/''"
  shows "length (Dir p) < length p"
proof -
  obtain cs where cs: "list_all proper cs" "p = CHR ''/'' # joinSep cs"
    using assms by (auto simp: canonical_def)
  show ?thesis
  proof (cases cs rule: rev_cases)
    case Nil
    then show ?thesis using cs assms by simp
  next
    case (snoc xs c)
    then have "c \<noteq> []" using cs by (auto simp: proper_def)
    then show ?thesis using snoc cs Dir_canonical_snoc [of xs c]
      by (auto simp: joinSep_snoc)
  qed
qed

section \<open>Evaluating the operations\<close>

lemmas mem_defs = alloc_def SetMode_def SetModTime_def updEntry_def CreateDir_def CreateFile_def
  ChangeFileName_def InitializeDir_def AddToMemDir_def RemoveFromMemDir_def ReadMemDir_def
  InitializeDir_fd_def AddToMemDir_fd_def RemoveFromMemDir_fd_def ReadMemDir_fd_def baseName_def
  IsDir_def Mode_def NewFileHandle_def NewReadOnlyFileHandle_def Truncate_def
lemmas fs_defs = lockfreeOpen_def open'_def Open_def Stat_def findParent_def registerWithParent_def
  unRegisterWithParent_def requireParentDirectory_def

lemma getData_init: "getData NewMemMapFs =
  \<lparr>fs_data = [''/'' \<mapsto> 0],
   fs_heap = (\<lambda>_. CreateFile [] 0)(0 := \<lparr>fd_name = ''/'', fd_data = [], fd_memDir = Some [],
       fd_dir = True, fd_mode = ModeDir OR 0x1ED, fd_modtime = 0\<rparr>),
   fs_next = 1, fs_init = True\<rparr>"
  by (simp add: getData_def NewMemMapFs_def mem_defs FilePathSeparator_def)

lemma getData_idem: "getData (getData m) = getData m"
  by (simp add: getData_def mem_defs Let_def)

lemma np_root: "normalizePath ''/'' = ''/''" by code_simp

lemma getData_initialised: "fs_init m \<Longrightarrow> getData m = m"
  by (simp add: getData_def)

lemma np_x: "normalizePath ''/x'' = ''/x''" by code_simp
lemma dir_x: "Dir ''/x'' = ''/''" by code_simp
lemma split_root: "Split ''/'' = (''/'', [])" by code_simp
lemma split_x: "Split ''/x'' = (''/'', ''x'')" by code_simp
lemma clean_root: "Clean ''/'' = ''/''" by code_simp
lemma hp_x: "HasPrefix ''/x'' ''//'' = False" by code_simp

lemma np_a: "normalizePath ''/a'' = ''/a''" by code_simp
lemma np_b: "normalizePath ''/b'' = ''/b''" by code_simp
lemma np_ab: "normalizePath ''/a/b'' = ''/a/b''" by code_simp
lemma dir_ab: "Dir ''/a/b'' = ''/a''" by code_simp
lemma np_nope: "normalizePath ''/nope'' = ''/nope''" by code_simp

lemma split_a: "Split ''/a'' = (''/'', ''a'')" by code_simp
lemma dir_a: "Dir ''/a'' = ''/''" by code_simp
lemma dir_root: "Dir ''/'' = ''/''" by code_simp

lemma perm_755: "(0x1ED :: FileMode) AND chmodBits = 0x1ED"
  by (simp add: chmodBits_def ModePerm_def ModeSetuid_def ModeSetgid_def ModeSticky_def)

lemmas path_evals = FilePathSeparator_def np_root np_a split_root clean_root split_a dir_a dir_root

lemma np_foobar: "normalizePath ''/foo/bar'' = ''/foo/bar''" by code_simp
lemma np_foo: "normalizePath ''/foo'' = ''/foo''" by code_simp
lemma dir_foobar: "Dir ''/foo/bar'' = ''/foo''" by code_simp

section \<open>Changing the mode\<close>

lemma bit_single: "bit (push_bit n (1::FileMode)) i \<longleftrightarrow> i = n \<and> n < 32"
  by (auto simp add: bit_simps)

lemma bit_low: "bit (mask n :: FileMode) i \<longleftrightarrow> i < n \<and> i < 32"
  by (auto simp add: bit_simps)

lemma chmodBits_bit: "bit chmodBits i \<longleftrightarrow> i < 9 \<or> i = 20 \<or> i = 22 \<or> i = 23"
proof -
  have p: "ModePerm = mask 9"
    by (simp add: ModePerm_def mask_eq_exp_minus_1)
  have u: "ModeSetuid = push_bit 23 1"
    by (simp add: ModeSetuid_def)
  have g: "ModeSetgid = push_bit 22 1"
    by (simp add: ModeSetgid_def)
  have t: "ModeSticky = push_bit 20 1"
    by (simp add: ModeSticky_def)
  show ?thesis
    unfolding chmodBits_def bit_or_iff p u g t bit_single bit_low by auto
qed

text \<open>
  C5: for every path that is in the table, \<open>Chmod\<close> succeeds and stores a mode whose
  permission bits (bits 0 to 8) and setuid, setgid and sticky bits (bits 23, 22 and 20)
  are those of the requested mode, while every other bit, the directory flag among them,
  is the bit the entry had before.  The table is unchanged and so is every entry but this
  one, of which only the mode changes.
\<close>

theorem Chmod_replaces_only_chmodBits:
  assumes "fs_data (getData m) (normalizePath p) = Some f"
  shows "\<exists>md'. Chmod p md m =
           (Inr (), (getData m)\<lparr>fs_heap := (fs_heap (getData m))
                       (f := (fs_heap (getData m) f)\<lparr>fd_mode := md'\<rparr>)\<rparr>)
         \<and> (\<forall>i. bit md' i = (if i < 9 \<or> i = 20 \<or> i = 22 \<or> i = 23 then bit md i
                              else bit (fd_mode (fs_heap (getData m) f)) i))"
proof -
  let ?old = "fd_mode (fs_heap (getData m) f)"
  let ?md' = "(?old AND NOT chmodBits) OR (md AND chmodBits)"
  have run: "Chmod p md m =
           (Inr (), (getData m)\<lparr>fs_heap := (fs_heap (getData m))
                       (f := (fs_heap (getData m) f)\<lparr>fd_mode := ?md'\<rparr>)\<rparr>)"
    using assms
    by (simp add: Chmod_def unrestrictedChmod_def Let_def normalizePath_idem SetMode_def updEntry_def Mode_def)
  have bits: "\<forall>i. bit ?md' i = (if i < 9 \<or> i = 20 \<or> i = 22 \<or> i = 23 then bit md i else bit ?old i)"
    by (auto simp add: bit_simps chmodBits_bit dest: bit_imp_le_length)
  show ?thesis using run bits by blast
qed

theorem Chmod_replaces_only_chmodBits_witness: "fs_data (getData NewMemMapFs) (normalizePath ''/'') = Some 0
   \<and> fst (Chmod ''/'' 0x1C0 NewMemMapFs) = Inr ()
   \<and> bit (fd_mode (fs_heap (snd (Chmod ''/'' 0x1C0 NewMemMapFs)) 0)) 31
   \<and> \<not> bit (fd_mode (fs_heap (snd (Chmod ''/'' 0x1C0 NewMemMapFs)) 0)) 0"
proof -
  have h: "fs_data (getData NewMemMapFs) (normalizePath ''/'') = Some 0"
    by (simp add: getData_init np_root)
  obtain md' where md': "Chmod ''/'' 0x1C0 NewMemMapFs =
           (Inr (), (getData NewMemMapFs)\<lparr>fs_heap := (fs_heap (getData NewMemMapFs))
                       (0 := (fs_heap (getData NewMemMapFs) 0)\<lparr>fd_mode := md'\<rparr>)\<rparr>)"
     and bits: "\<forall>i. bit md' i = (if i < 9 \<or> i = 20 \<or> i = 22 \<or> i = 23 then bit (0x1C0 :: FileMode) i
                              else bit (fd_mode (fs_heap (getData NewMemMapFs) 0)) i)"
    using Chmod_replaces_only_chmodBits [OF h, of "0x1C0"] by blast
  have b31: "bit md' 31" and b0: "\<not> bit md' 0"
    using bits by (simp_all add: getData_init ModeDir_def bit_simps)
  show ?thesis
    unfolding md' using h b31 b0 by simp
qed

section \<open>Changing the times\<close>

text \<open>
  C10: \<open>Chtimes\<close> ignores its access-time argument.  For every path that is in the table,
  two calls that differ only in the access time both succeed and produce the same state:
  the state before the call with the modification time of that one entry replaced.
\<close>

theorem Chtimes_ignores_atime:
  assumes "fs_data (getData m) (normalizePath p) = Some f"
  shows "Chtimes p a1 mtime m = Chtimes p a2 mtime m
       \<and> Chtimes p a1 mtime m =
           (Inr (), (getData m)\<lparr>fs_heap := (fs_heap (getData m))
                       (f := (fs_heap (getData m) f)\<lparr>fd_modtime := mtime\<rparr>)\<rparr>)"
  using assms by (simp add: Chtimes_def Let_def SetModTime_def updEntry_def)

theorem Chtimes_ignores_atime_witness: "fs_data (getData NewMemMapFs) (normalizePath ''/'') = Some 0
   \<and> Chtimes ''/'' 1 5 NewMemMapFs = Chtimes ''/'' 2 5 NewMemMapFs
   \<and> fst (Chtimes ''/'' 1 5 NewMemMapFs) = Inr ()
   \<and> fd_modtime (fs_heap (snd (Chtimes ''/'' 1 5 NewMemMapFs)) 0) = 5"
proof -
  have h: "fs_data (getData NewMemMapFs) (normalizePath ''/'') = Some 0"
    by (simp add: getData_init np_root)
  have e: "Chtimes ''/'' 1 5 NewMemMapFs = Chtimes ''/'' 2 5 NewMemMapFs"
    and r: "Chtimes ''/'' 1 5 NewMemMapFs =
           (Inr (), (getData NewMemMapFs)\<lparr>fs_heap := (fs_heap (getData NewMemMapFs))
                       (0 := (fs_heap (getData NewMemMapFs) 0)\<lparr>fd_modtime := 5\<rparr>)\<rparr>)"
    using Chtimes_ignores_atime [OF h, of 1 5 2] by blast+
  have r2: "Chtimes ''/'' 2 5 NewMemMapFs =
           (Inr (), (getData NewMemMapFs)\<lparr>fs_heap := (fs_heap (getData NewMemMapFs))
                       (0 := (fs_heap (getData NewMemMapFs) 0)\<lparr>fd_modtime := 5\<rparr>)\<rparr>)"
    using e r by simp
  show ?thesis
    by (simp add: h r r2)
qed

section \<open>The archive-backed filesystem is read-only\<close>

text \<open>
  C9: the archive-backed backend rejects \<open>Create\<close>, \<open>Mkdir\<close>, \<open>MkdirAll\<close>, \<open>Remove\<close>,
  \<open>RemoveAll\<close>, \<open>Rename\<close>, \<open>Chmod\<close> and \<open>Chtimes\<close>, and \<open>OpenFile\<close> with any flag
  other than read-only, with the one error \<open>EPERM\<close>, whatever the arguments, and leaves
  its table as it was.
\<close>

theorem zipfs_rejects_mutation:
  "zipfs_Create nm fs = (Inl (Bare EPERM), fs)
   \<and> zipfs_Mkdir nm perm fs = (Inl (Bare EPERM), fs)
   \<and> zipfs_MkdirAll nm perm fs = (Inl (Bare EPERM), fs)
   \<and> zipfs_Remove nm fs = (Inl (Bare EPERM), fs)
   \<and> zipfs_RemoveAll nm fs = (Inl (Bare EPERM), fs)
   \<and> zipfs_Rename nm nm' fs = (Inl (Bare EPERM), fs)
   \<and> zipfs_Chmod nm perm fs = (Inl (Bare EPERM), fs)
   \<and> zipfs_Chtimes nm atime mtime fs = (Inl (Bare EPERM), fs)
   \<and> (flag \<noteq> O_RDONLY \<longrightarrow> zipfs_OpenFile nm flag perm fs = (Inl (Bare EPERM), fs))"
  by (simp add: zipfs_Create_def zipfs_Mkdir_def zipfs_MkdirAll_def zipfs_Remove_def
      zipfs_RemoveAll_def zipfs_Rename_def zipfs_Chmod_def zipfs_Chtimes_def zipfs_OpenFile_def)

theorem zipfs_rejects_mutation_witness:
  "O_RDWR \<noteq> O_RDONLY
   \<and> zipfs_OpenFile ''/a'' O_RDWR 0x1A4 \<lparr>files = Map.empty\<rparr> = (Inl (Bare EPERM), \<lparr>files = Map.empty\<rparr>)
   \<and> zipfs_Remove ''/a'' \<lparr>files = Map.empty\<rparr> = (Inl (Bare EPERM), \<lparr>files = Map.empty\<rparr>)"
proof -
  have h: "O_RDWR \<noteq> O_RDONLY"
    by (simp add: O_RDWR_def O_RDONLY_def)
  show ?thesis
    using h zipfs_rejects_mutation [of "''/a''" "\<lparr>files = Map.empty\<rparr>" "0x1A4" "''/a''" 0 0 O_RDWR]
    by simp
qed

section \<open>Rename: the checks before the move\<close>

lemma np_bc: "normalizePath ''/b/c'' = ''/b/c''" by code_simp
lemma dir_bc: "Dir ''/b/c'' = ''/b''" by code_simp

text \<open>
  C4, as stated, fails: when both names normalize to the same path, \<open>Rename\<close> returns
  success before it looks at the table, also for a path that is absent, here in the
  initial root-only state and in a filesystem never accessed; and when the new path lies
  strictly inside the old one, it fails with \<open>ErrInvalid\<close> before it looks at the table.
  In each case the state is left exactly as it was.
\<close>

theorem Rename_same_path_counterexample:
  "fs_data (getData NewMemMapFs) (normalizePath ''/nope'') = None
   \<and> Rename 1 ''/nope'' ''/nope'' (getData NewMemMapFs) = Some (Inr (), getData NewMemMapFs)
   \<and> Rename 1 ''/nope'' ''/nope'' NewMemMapFs = Some (Inr (), NewMemMapFs)
   \<and> fs_data (getData NewMemMapFs) (normalizePath ''/a'') = None
   \<and> Rename 1 ''/a'' ''/a/b'' (getData NewMemMapFs) =
        Some (Inl (PathError ''rename'' ''/a/b'' ErrInvalid), getData NewMemMapFs)"
  by (simp add: Rename_def np_nope np_a np_ab getData_init HasPrefix_def FilePathSeparator_def)

text \<open>
  The test that the new path is inside the old one never fires when the old path is the
  root: no normalized path starts with two separators.
\<close>

lemma joinSep_proper_head:
  "list_all proper cs \<Longrightarrow> cs \<noteq> [] \<Longrightarrow> joinSep cs \<noteq> [] \<and> hd (joinSep cs) \<noteq> CHR ''/''"
  by (induction cs rule: joinSep.induct) (auto simp: proper_def slashFree_def dest: hd_in_set)

lemma root_guard_never_fires:
  "\<not> HasPrefix (normalizePath p) (FilePathSeparator @ FilePathSeparator)"
proof -
  obtain cs where cs: "list_all proper cs" and p: "normalizePath p = CHR ''/'' # joinSep cs"
    using canonical_normalizePath [of p] by (auto simp: canonical_def)
  show ?thesis
  proof (cases "cs = []")
    case True
    then show ?thesis using p by (simp add: HasPrefix_def FilePathSeparator_def)
  next
    case False
    then obtain c rest where "joinSep cs = c # rest" and "c \<noteq> CHR ''/''"
      using joinSep_proper_head [OF cs] by (cases "joinSep cs") auto
    then show ?thesis using p by (simp add: HasPrefix_def FilePathSeparator_def)
  qed
qed

text \<open>
  C4, amended.  For every pair of paths, with both normalized:
  if they are the same path, \<open>Rename\<close> returns success and leaves the filesystem exactly
  as it was, without consulting the table;
  if they differ and the new path starts with the old path and a separator, \<open>Rename\<close>
  fails with \<open>ErrInvalid\<close> on the new path and leaves the filesystem exactly as it was,
  without consulting the table;
  otherwise, for an old path other than the root, \<open>Rename\<close> fails with \<open>ErrFileNotFound\<close>
  on the old path whenever the old path is absent from the table, and fails with
  \<open>ErrFileNotFound\<close> on the parent of the new path whenever the old path is present and
  that parent is absent; the table is left as it was.  Nothing is said of a rename of
  the root path to another path.
\<close>

theorem Rename_not_found:
  "(normalizePath oldname = normalizePath newname \<longrightarrow>
      Rename fuel oldname newname m = Some (Inr (), m))
   \<and> (normalizePath oldname \<noteq> normalizePath newname
        \<and> HasPrefix (normalizePath newname) (normalizePath oldname @ FilePathSeparator) \<longrightarrow>
      Rename fuel oldname newname m =
        Some (Inl (PathError ''rename'' (normalizePath newname) ErrInvalid), m))
   \<and> (normalizePath oldname \<noteq> FilePathSeparator
        \<and> normalizePath oldname \<noteq> normalizePath newname
        \<and> \<not> HasPrefix (normalizePath newname) (normalizePath oldname @ FilePathSeparator)
        \<and> fs_data (getData m) (normalizePath oldname) = None \<longrightarrow>
      Rename fuel oldname newname m =
        Some (Inl (PathError ''rename'' (normalizePath oldname) ErrFileNotFound), getData m))
   \<and> (normalizePath oldname \<noteq> FilePathSeparator
        \<and> normalizePath oldname \<noteq> normalizePath newname
        \<and> \<not> HasPrefix (normalizePath newname) (normalizePath oldname @ FilePathSeparator)
        \<and> fs_data (getData m) (normalizePath oldname) \<noteq> None
        \<and> fs_data (getData m) (Dir (normalizePath newname)) = None \<longrightarrow>
      Rename fuel oldname newname m =
        Some (Inl (PathError ''rename'' (Dir (normalizePath newname)) ErrFileNotFound), getData m))"
  by (simp add: Rename_def Let_def)

theorem Rename_not_found_witness:
  "normalizePath ''/nope'' = normalizePath ''/nope''
   \<and> Rename 0 ''/nope'' ''/nope'' NewMemMapFs = Some (Inr (), NewMemMapFs)
   \<and> normalizePath ''/a'' \<noteq> normalizePath ''/a/b''
   \<and> HasPrefix (normalizePath ''/a/b'') (normalizePath ''/a'' @ FilePathSeparator)
   \<and> Rename 0 ''/a'' ''/a/b'' NewMemMapFs =
        Some (Inl (PathError ''rename'' ''/a/b'' ErrInvalid), NewMemMapFs)
   \<and> normalizePath ''/a'' \<noteq> FilePathSeparator
   \<and> normalizePath ''/a'' \<noteq> normalizePath ''/b''
   \<and> \<not> HasPrefix (normalizePath ''/b'') (normalizePath ''/a'' @ FilePathSeparator)
   \<and> fs_data (getData NewMemMapFs) (normalizePath ''/a'') = None
   \<and> Rename 0 ''/a'' ''/b'' NewMemMapFs =
        Some (Inl (PathError ''rename'' ''/a'' ErrFileNotFound), getData NewMemMapFs)
   \<and> normalizePath ''/a'' \<noteq> normalizePath ''/b/c''
   \<and> \<not> HasPrefix (normalizePath ''/b/c'') (normalizePath ''/a'' @ FilePathSeparator)
   \<and> fs_data (getData dirAFs) (normalizePath ''/a'') \<noteq> None
   \<and> fs_data (getData dirAFs) (Dir (normalizePath ''/b/c'')) = None
   \<and> Rename 0 ''/a'' ''/b/c'' dirAFs =
        Some (Inl (PathError ''rename'' ''/b'' ErrFileNotFound), dirAFs)"
proof -
  have d0: "getData dirAFs = dirAFs"
    by (simp add: getData_initialised dirAFs_def)
  have a1: "normalizePath ''/nope'' = normalizePath ''/nope''"
    by simp
  have b1: "normalizePath ''/a'' \<noteq> normalizePath ''/a/b''"
    and b2: "HasPrefix (normalizePath ''/a/b'') (normalizePath ''/a'' @ FilePathSeparator)"
    by (simp_all add: np_a np_ab HasPrefix_def FilePathSeparator_def)
  have c0: "normalizePath ''/a'' \<noteq> FilePathSeparator"
    and c1: "normalizePath ''/a'' \<noteq> normalizePath ''/b''"
    and c2: "\<not> HasPrefix (normalizePath ''/b'') (normalizePath ''/a'' @ FilePathSeparator)"
    and c3: "fs_data (getData NewMemMapFs) (normalizePath ''/a'') = None"
    by (simp_all add: np_a np_b HasPrefix_def FilePathSeparator_def getData_init)
  have e1: "normalizePath ''/a'' \<noteq> normalizePath ''/b/c''"
    and e2: "\<not> HasPrefix (normalizePath ''/b/c'') (normalizePath ''/a'' @ FilePathSeparator)"
    and e3: "fs_data (getData dirAFs) (normalizePath ''/a'') \<noteq> None"
    and e4: "fs_data (getData dirAFs) (Dir (normalizePath ''/b/c'')) = None"
    unfolding d0
    by (simp_all add: np_a np_bc dir_bc HasPrefix_def FilePathSeparator_def dirAFs_def)
  have ra: "Rename 0 ''/nope'' ''/nope'' NewMemMapFs = Some (Inr (), NewMemMapFs)"
    using Rename_not_found [of "''/nope''" "''/nope''" 0 NewMemMapFs] a1 by blast
  have rb: "Rename 0 ''/a'' ''/a/b'' NewMemMapFs =
        Some (Inl (PathError ''rename'' ''/a/b'' ErrInvalid), NewMemMapFs)"
    using Rename_not_found [of "''/a''" "''/a/b''" 0 NewMemMapFs] b1 b2 by (simp add: np_ab)
  have rc: "Rename 0 ''/a'' ''/b'' NewMemMapFs =
        Some (Inl (PathError ''rename'' ''/a'' ErrFileNotFound), getData NewMemMapFs)"
    using Rename_not_found [of "''/a''" "''/b''" 0 NewMemMapFs] c0 c1 c2 c3 by (simp add: np_a)
  have re: "Rename 0 ''/a'' ''/b/c'' dirAFs =
        Some (Inl (PathError ''rename'' ''/b'' ErrFileNotFound), dirAFs)"
    using Rename_not_found [of "''/a''" "''/b/c''" 0 dirAFs] c0 e1 e2 e3 e4
    by (simp add: np_bc dir_bc d0)
  show ?thesis
    using a1 b1 b2 c0 c1 c2 c3 e1 e2 e3 e4 ra rb rc re by blast
qed

section \<open>Create below a missing parent\<close>

text \<open>
  C7, as stated, fails: the path the error carries is the normalized path \<open>/foo/bar\<close>,
  with its leading separator, not \<open>foo/bar\<close>.
\<close>

theorem Create_missing_parent_counterexample:
  "fs_data (getData NewMemMapFs) ''/foo'' = None
   \<and> (case Create 1 0 ''/foo/bar'' NewMemMapFs of
         Some (Inl (PathError opn path e), m) \<Rightarrow> e = ErrNotExist \<and> path \<noteq> ''foo/bar''
       | _ \<Rightarrow> False)"
  by (simp add: getData_init Create_def requireParentDirectory_def Stat_def Open_def open'_def Let_def
      np_foobar np_foo dir_foobar)

text \<open>
  C7, amended: when \<open>Create\<close> is called on \<open>/foo/bar\<close> in a state where \<open>/foo\<close> is not in
  the table, the call fails with the path error of operation \<open>open\<close> and cause
  \<open>ErrNotExist\<close> whose path is the normalized path \<open>/foo/bar\<close>, and the table is left
  as it was.
\<close>

theorem Create_missing_parent:
  assumes "fs_data (getData m) ''/foo'' = None"
  shows "Create fuel now ''/foo/bar'' m =
           Some (Inl (PathError ''open'' ''/foo/bar'' ErrNotExist), getData m)"
  using assms
  by (simp add: Create_def requireParentDirectory_def Stat_def Open_def open'_def Let_def
      np_foobar np_foo dir_foobar)

theorem Create_missing_parent_witness:
  "fs_data (getData NewMemMapFs) ''/foo'' = None
   \<and> Create 0 0 ''/foo/bar'' NewMemMapFs =
           Some (Inl (PathError ''open'' ''/foo/bar'' ErrNotExist), getData NewMemMapFs)"
proof -
  have h: "fs_data (getData NewMemMapFs) ''/foo'' = None"
    by (simp add: getData_init)
  show ?thesis using h Create_missing_parent [OF h, of 0 0] by simp
qed

section \<open>Operations on the root path\<close>

lemma Rename_root: "Rename (Suc 0) ''/'' ''/x'' (getData NewMemMapFs) = Some (Inr (), renamedRoot)"
  by (simp add: Rename_def getData_initialised getData_init renamedRoot_def mem_defs fs_defs Let_def
      FilePathSeparator_def np_root np_x dir_x split_root split_x clean_root hp_x)

lemma Rename_root': "Rename (Suc 0) ''/'' ''/x'' NewMemMapFs = Some (Inr (), renamedRoot)"
  using Rename_root
  by (simp add: Rename_def Let_def getData_idem np_root np_x hp_x FilePathSeparator_def)

lemma reachable_renamedRoot: "reachable renamedRoot"
  using reachable.step [OF reachable.initial, of "Suc 0" "OpRename ''/'' ''/x''" "Inr ()" renamedRoot]
  by (simp add: Rename_root)

lemma not_symmetric_renamedRoot: "\<not> symmetric renamedRoot"
proof
  assume "symmetric renamedRoot"
  then have "case fs_data renamedRoot ''/x'' of
             None \<Rightarrow> True
           | Some f \<Rightarrow> if fd_dir (fs_heap renamedRoot f) then recordedChildren renamedRoot f = tableChildren renamedRoot ''/x'' else True"
    unfolding symmetric_def by blast
  then show False
    by (simp add: renamedRoot_def recordedChildren_def tableChildren_def)
qed

lemma RemoveAll_x: "RemoveAll (Suc 0) ''/x'' renamedRoot = Some (Inl (Panic ''parent of /x is nil''), renamedRoot)"
  unfolding renamedRoot_def
  by (simp add: RemoveAll_def getData_initialised mem_defs fs_defs Let_def
      FilePathSeparator_def np_root np_x dir_x split_root split_x clean_root hp_x)

text \<open>
  C3 does not hold of the code: \<open>RemoveAll\<close> on the root path of the initial state
  returns without error and leaves a table without the root path; the one-time gate has
  been passed, so no later access creates the root again.
\<close>

theorem RemoveAll_root_removes_root:
  "rootExists (getData NewMemMapFs)
   \<and> RemoveAll 1 ''/'' NewMemMapFs = Some (Inr (), (getData NewMemMapFs)\<lparr>fs_data := Map.empty\<rparr>)
   \<and> reachable ((getData NewMemMapFs)\<lparr>fs_data := Map.empty\<rparr>)
   \<and> \<not> rootExists ((getData NewMemMapFs)\<lparr>fs_data := Map.empty\<rparr>)
   \<and> getData ((getData NewMemMapFs)\<lparr>fs_data := Map.empty\<rparr>) = (getData NewMemMapFs)\<lparr>fs_data := Map.empty\<rparr>"
proof -
  have r: "RemoveAll (Suc 0) ''/'' (getData NewMemMapFs) =
             Some (Inr (), (getData NewMemMapFs)\<lparr>fs_data := Map.empty\<rparr>)"
    by (simp add: RemoveAll_def getData_initialised getData_init mem_defs fs_defs Let_def
        FilePathSeparator_def np_root split_root clean_root)
  have r': "RemoveAll (Suc 0) ''/'' NewMemMapFs =
              Some (Inr (), (getData NewMemMapFs)\<lparr>fs_data := Map.empty\<rparr>)"
    using r by (simp add: RemoveAll_def getData_idem)
  have "reachable ((getData NewMemMapFs)\<lparr>fs_data := Map.empty\<rparr>)"
    using reachable.step [OF reachable.initial, of "Suc 0" "OpRemoveAll ''/''" "Inr ()"] r
    by simp
  then show ?thesis
    using r' by (simp add: rootExists_def getData_init getData_initialised FilePathSeparator_def)
qed

text \<open>Symmetry does hold in the state after an ordinary \<open>Mkdir\<close>.\<close>

lemma symmetric_dirAFs: "symmetric dirAFs"
proof -
  have d: "dom (fs_data dirAFs) = {''/'', ''/a''}"
    by (auto simp: dirAFs_def split: if_splits)
  have t1: "tableChildren dirAFs ''/'' = {''a''}"
    unfolding tableChildren_def d by (auto simp: path_evals intro: exI [of _ "''/a''"])
  have t2: "tableChildren dirAFs ''/a'' = {}"
    unfolding tableChildren_def d by (auto simp: path_evals)
  have r1: "recordedChildren dirAFs 0 = {''a''}" and r2: "recordedChildren dirAFs 1 = {}"
    by (simp_all add: recordedChildren_def dirAFs_def)
  show ?thesis
    unfolding symmetric_def
  proof
    fix p
    show "case fs_data dirAFs p of None \<Rightarrow> True
          | Some f \<Rightarrow> if fd_dir (fs_heap dirAFs f) then recordedChildren dirAFs f = tableChildren dirAFs p else True"
    proof (cases "p = ''/''")
      case True
      then show ?thesis using t1 r1 by (simp add: dirAFs_def)
    next
      case False
      show ?thesis
      proof (cases "p = ''/a''")
        case True
        then show ?thesis using t2 r2 by (simp add: dirAFs_def)
      next
        case False
        then show ?thesis using \<open>p \<noteq> ''/''\<close> by (simp add: dirAFs_def)
      qed
    qed
  qed
qed

text \<open>
  C1 does not hold of the code: \<open>Rename\<close> of the root path to \<open>/x\<close> in the initial state
  returns without error and reaches a state whose one directory, \<open>/x\<close>, records the child
  name \<open>x\<close> although no table entry has \<open>/x\<close> as its parent.
\<close>

theorem Rename_root_breaks_symmetry:
  "symmetric (getData NewMemMapFs)
   \<and> Rename 1 ''/'' ''/x'' NewMemMapFs = Some (Inr (), renamedRoot)
   \<and> reachable renamedRoot
   \<and> \<not> symmetric renamedRoot"
proof -
  have "symmetric (getData NewMemMapFs)"
    by (simp add: symmetric_def getData_init recordedChildren_def tableChildren_def)
  then show ?thesis
    by (simp add: Rename_root' reachable_renamedRoot not_symmetric_renamedRoot)
qed

text \<open>
  C8 does not hold of the code: after \<open>Rename\<close> of the root path to \<open>/x\<close>, which returns
  without error, \<open>RemoveAll\<close> on \<open>/x\<close> reaches the panic of \<open>unRegisterWithParent\<close>, since
  the parent path of \<open>/x\<close> is no longer in the table.
\<close>

theorem Rename_root_then_RemoveAll_panics:
  "Rename 1 ''/'' ''/x'' NewMemMapFs = Some (Inr (), renamedRoot)
   \<and> reachable renamedRoot
   \<and> RemoveAll 1 ''/x'' renamedRoot = Some (Inl (Panic ''parent of /x is nil''), renamedRoot)"
  by (simp add: Rename_root' reachable_renamedRoot RemoveAll_x)

section \<open>Lookups\<close>

lemma getData_init_flag: "fs_init (getData m)"
  by (simp add: getData_def mem_defs Let_def)

lemma Stat_found: "fs_data m (normalizePath p) = Some f \<Longrightarrow> Stat m p = Inr f"
  by (simp add: Stat_def Open_def open'_def NewReadOnlyFileHandle_def)

lemma Stat_missing:
  "fs_data m (normalizePath p) = None \<Longrightarrow> Stat m p = Inl (PathError ''open'' (normalizePath p) ErrFileNotFound)"
  by (simp add: Stat_def Open_def open'_def)

lemma Stat_Inr: "Stat m p = Inr f \<Longrightarrow> fs_data m (normalizePath p) = Some f"
  by (auto simp: Stat_def Open_def open'_def NewReadOnlyFileHandle_def Let_def split: option.splits)

lemma normalizePath_Dir: "normalizePath (Dir (normalizePath p)) = Dir (normalizePath p)"
  by (rule normalizePath_canonical [OF canonical_Dir [OF canonical_normalizePath]])

lemma lockFreeRemoveAll_absent:
  "fs_data m (normalizePath p) = None \<Longrightarrow> lockFreeRemoveAll (Suc k) p m = Some (Inr (), m)"
  by (simp add: lockfreeOpen_def normalizePath_idem)

lemma entriesAllocated_init: "entriesAllocated (getData NewMemMapFs)"
  by (simp add: entriesAllocated_def getData_init)

lemma entriesAllocated_fileAFs: "entriesAllocated (fileAFs c t)"
  by (simp add: entriesAllocated_def fileAFs_def)

lemma entriesAllocated_dirAFs: "entriesAllocated dirAFs"
  by (simp add: entriesAllocated_def dirAFs_def)

section \<open>Create\<close>

lemma Mkdir_a: "Mkdir ''/a'' 0x1ED NewMemMapFs = (Inr (), dirAFs)"
  unfolding dirAFs_def
  by (simp add: Mkdir_def unrestrictedChmod_def getData_initialised getData_init mem_defs fs_defs
      Let_def path_evals perm_755 fun_upd_twist)

lemma MkdirAll_a: "MkdirAll ''/a'' 0x1ED NewMemMapFs = Some (Inr (), dirAFs)"
  unfolding dirAFs_def
  by (simp add: MkdirAll_def findMissingDirs_def findMissingDirs_loop.simps Mkdir_def
      unrestrictedChmod_def getData_initialised getData_init mem_defs fs_defs
      Let_def path_evals perm_755 fun_upd_twist)

lemma Create_a: "Create (Suc 0) 7 ''/a'' NewMemMapFs = Some (Inr (NewFileHandle 1), fileAFs [] 7)"
  unfolding fileAFs_def
  by (simp add: Create_def getData_initialised getData_init mem_defs fs_defs
      Let_def path_evals fun_upd_twist)

text \<open>
  C2, as stated, fails: in the state after \<open>Mkdir\<close> of \<open>/a\<close>, the parent of \<open>/a\<close> exists
  and is a directory, and \<open>Create\<close> of \<open>/a\<close> does not replace the directory: it fails
  with \<open>ErrIsDir\<close> and leaves the state as it was.
\<close>

theorem Create_over_directory_counterexample:
  "Mkdir ''/a'' 0x1ED NewMemMapFs = (Inr (), dirAFs)
   \<and> fs_data dirAFs (Dir (normalizePath ''/a'')) = Some 0
   \<and> fd_dir (fs_heap dirAFs 0)
   \<and> fs_data dirAFs (normalizePath ''/a'') = Some 1
   \<and> fd_dir (fs_heap dirAFs 1)
   \<and> Create 1 0 ''/a'' dirAFs = Some (Inl (PathError ''open'' ''/a'' ErrIsDir), dirAFs)"
proof -
  have "Create (Suc 0) 0 ''/a'' dirAFs = Some (Inl (PathError ''open'' ''/a'' ErrIsDir), dirAFs)"
    unfolding dirAFs_def
    by (simp add: Create_def getData_initialised mem_defs fs_defs Let_def path_evals)
  then show ?thesis
    by (simp add: Mkdir_a path_evals) (simp add: dirAFs_def)
qed

text \<open>
  C2, amended: for every path whose parent path is in the table and is a directory,
  in a state whose entries live at allocated addresses and with fuel for one call:
  if the path is absent, \<open>Create\<close> succeeds and returns a writable handle to a fresh
  zero-length file with mode 0666, stored at the path and registered with the parent;
  if the path holds a file, \<open>Create\<close> succeeds and returns a writable handle to that same
  entry, truncated in place to length zero;
  if the path holds a directory, \<open>Create\<close> fails with \<open>ErrIsDir\<close> and changes nothing.
\<close>

theorem Create_fresh_or_truncated:
  assumes m0: "m0 = getData m" and nm: "nm = normalizePath p" and fuel: "0 < fuel"
    and parent: "fs_data m0 (Dir nm) = Some pa" "fd_dir (fs_heap m0 pa)"
    and alloc: "entriesAllocated m0"
  shows "(fs_data m0 nm = None \<longrightarrow>
            Create fuel now p m =
              Some (Inr (NewFileHandle (fs_next m0)),
                    m0\<lparr>fs_data := (fs_data m0)(nm \<mapsto> fs_next m0),
                       fs_heap := (fs_heap m0)
                         (fs_next m0 := (CreateFile nm now)\<lparr>fd_mode := createPerm\<rparr>,
                          pa := AddToMemDir_fd (InitializeDir_fd (fs_heap m0 pa)) (snd (Split nm))),
                       fs_next := Suc (fs_next m0)\<rparr>))
       \<and> (\<forall>f. fs_data m0 nm = Some f \<and> \<not> fd_dir (fs_heap m0 f) \<longrightarrow>
            Create fuel now p m =
              Some (Inr (NewFileHandle f),
                    m0\<lparr>fs_heap := (fs_heap m0)
                         (f := (fs_heap m0 f)\<lparr>fd_data := [], fd_modtime := now\<rparr>)\<rparr>))
       \<and> (\<forall>f. fs_data m0 nm = Some f \<and> fd_dir (fs_heap m0 f) \<longrightarrow>
            Create fuel now p m = Some (Inl (PathError ''open'' nm ErrIsDir), m0))"
proof -
  have nn: "normalizePath nm = nm"
    by (simp add: nm normalizePath_idem)
  have nd: "normalizePath (Dir nm) = Dir nm"
    by (simp add: nm normalizePath_Dir)
  have req: "requireParentDirectory ''open'' nm m0 = Inr ()"
    using parent by (simp add: requireParentDirectory_def Let_def nn Stat_found nd IsDir_def)
  have pa: "pa \<noteq> fs_next m0"
    using alloc parent(1) by (auto simp: entriesAllocated_def split: option.splits dest!: spec [of _ "Dir nm"])
  obtain k where k: "fuel = Suc k"
    using fuel by (cases fuel) auto
  have absent: "Create fuel now p m =
              Some (Inr (NewFileHandle (fs_next m0)),
                    m0\<lparr>fs_data := (fs_data m0)(nm \<mapsto> fs_next m0),
                       fs_heap := (fs_heap m0)
                         (fs_next m0 := (CreateFile nm now)\<lparr>fd_mode := createPerm\<rparr>,
                          pa := AddToMemDir_fd (InitializeDir_fd (fs_heap m0 pa)) (snd (Split nm))),
                       fs_next := Suc (fs_next m0)\<rparr>)"
    if none: "fs_data m0 nm = None"
  proof -
    have ne: "Dir nm \<noteq> nm"
      using none parent(1) by auto
    have st: "Stat m0 nm = Inl (PathError ''open'' nm ErrFileNotFound)"
      using none by (simp add: Stat_missing nn)
    have rm: "lockFreeRemoveAll fuel nm m0 = Some (Inr (), m0)"
      unfolding k by (rule lockFreeRemoveAll_absent) (simp add: nn none)
    show ?thesis
      using pa ne parent(1)
      by (auto simp add: Create_def Let_def m0 [symmetric] nm [symmetric] req st rm
          registerWithParent_def findParent_def lockfreeOpen_def mem_defs
          Dir_def [symmetric] nd fun_upd_twist split: option.splits)
  qed
  have isfile: "Create fuel now p m =
              Some (Inr (NewFileHandle f),
                    m0\<lparr>fs_heap := (fs_heap m0)
                         (f := (fs_heap m0 f)\<lparr>fd_data := [], fd_modtime := now\<rparr>)\<rparr>)"
    if "fs_data m0 nm = Some f" "\<not> fd_dir (fs_heap m0 f)" for f
    using that
    by (simp add: Create_def Let_def m0 [symmetric] nm [symmetric] req Stat_found nn
        IsDir_def Truncate_def NewFileHandle_def updEntry_def)
  have isdir: "Create fuel now p m = Some (Inl (PathError ''open'' nm ErrIsDir), m0)"
    if "fs_data m0 nm = Some f" "fd_dir (fs_heap m0 f)" for f
    using that
    by (simp add: Create_def Let_def m0 [symmetric] nm [symmetric] req Stat_found nn IsDir_def)
  show ?thesis
    using absent isfile isdir by blast
qed

theorem Create_fresh_or_truncated_witness:
  "entriesAllocated (getData NewMemMapFs)
   \<and> fs_data (getData NewMemMapFs) (Dir (normalizePath ''/a'')) = Some 0
   \<and> fd_dir (fs_heap (getData NewMemMapFs) 0)
   \<and> fs_data (getData NewMemMapFs) (normalizePath ''/a'') = None
   \<and> Create 1 7 ''/a'' NewMemMapFs = Some (Inr (NewFileHandle 1), fileAFs [] 7)
   \<and> fs_data (fileAFs [104, 105] 7) (normalizePath ''/a'') = Some 1
   \<and> \<not> fd_dir (fs_heap (fileAFs [104, 105] 7) 1)
   \<and> Create 1 9 ''/a'' (fileAFs [104, 105] 7) = Some (Inr (NewFileHandle 1), fileAFs [] 9)
   \<and> fs_data dirAFs (normalizePath ''/a'') = Some 1
   \<and> fd_dir (fs_heap dirAFs 1)
   \<and> Create 1 9 ''/a'' dirAFs = Some (Inl (PathError ''open'' ''/a'' ErrIsDir), dirAFs)"
proof -
  have a1: "fs_data (getData NewMemMapFs) (Dir (normalizePath ''/a'')) = Some 0"
    and a2: "fd_dir (fs_heap (getData NewMemMapFs) 0)"
    and a3: "fs_data (getData NewMemMapFs) (normalizePath ''/a'') = None"
    by (simp_all add: getData_init path_evals)
  have b0: "getData (fileAFs [104, 105] 7) = fileAFs [104, 105] 7"
    by (simp add: getData_initialised fileAFs_def)
  have b1: "fs_data (fileAFs [104, 105] 7) (Dir (normalizePath ''/a'')) = Some 0"
    and b2: "fd_dir (fs_heap (fileAFs [104, 105] 7) 0)"
    and b3: "fs_data (fileAFs [104, 105] 7) (normalizePath ''/a'') = Some 1"
    and b4: "\<not> fd_dir (fs_heap (fileAFs [104, 105] 7) 1)"
    by (simp_all add: fileAFs_def path_evals)
  have c0: "getData dirAFs = dirAFs"
    by (simp add: getData_initialised dirAFs_def)
  have c1: "fs_data dirAFs (Dir (normalizePath ''/a'')) = Some 0"
    and c2: "fd_dir (fs_heap dirAFs 0)"
    and c3: "fs_data dirAFs (normalizePath ''/a'') = Some 1"
    and c4: "fd_dir (fs_heap dirAFs 1)"
    by (simp_all add: dirAFs_def path_evals)
  have r1: "Create 1 7 ''/a'' NewMemMapFs = Some (Inr (NewFileHandle 1), fileAFs [] 7)"
    using Create_fresh_or_truncated [OF refl refl _ a1 a2 entriesAllocated_init, of 1 7] a3
    by (simp add: fileAFs_def getData_init path_evals mem_defs fun_upd_twist)
  have r2: "Create 1 9 ''/a'' (fileAFs [104, 105] 7) = Some (Inr (NewFileHandle 1), fileAFs [] 9)"
    using Create_fresh_or_truncated [OF b0 [symmetric] refl _ b1 b2 entriesAllocated_fileAFs, of 1 9] b3 b4
    by (simp add: fileAFs_def)
  have r3: "Create 1 9 ''/a'' dirAFs = Some (Inl (PathError ''open'' ''/a'' ErrIsDir), dirAFs)"
    using Create_fresh_or_truncated [OF c0 [symmetric] refl _ c1 c2 entriesAllocated_dirAFs, of 1 9] c3 c4
    by (simp add: path_evals)
  show ?thesis
    using entriesAllocated_init a1 a2 a3 r1 b3 b4 r2 c3 c4 r3 by simp
qed

section \<open>MkdirAll\<close>

text \<open>The walk of \<open>findMissingDirs\<close> ends on every path, so \<open>MkdirAll\<close> always returns.\<close>

lemma findMissingDirs_loop_returns:
  "canonical cur \<Longrightarrow> \<exists>r. findMissingDirs_loop m cur acc = Some r"
proof (induction "length cur" arbitrary: cur acc m rule: less_induct)
  case less
  show ?case
  proof (cases "cur = FilePathSeparator")
    case True
    then show ?thesis
      by (subst findMissingDirs_loop.simps) simp
  next
    case False
    then have "length (Dir cur) < length cur" and "canonical (Dir cur)"
      using less.prems Dir_shorter canonical_Dir by (auto simp: FilePathSeparator_def)
    then obtain r where "findMissingDirs_loop (getData m) (Dir cur) (acc @ [cur]) = Some r"
      using less.hyps by blast
    then show ?thesis
      by (subst findMissingDirs_loop.simps) (simp split: sum.splits)
  qed
qed

lemma MkdirAll_returns: "\<exists>r. MkdirAll p perm m = Some r"
proof -
  obtain r where "findMissingDirs_loop m (normalizePath p) [] = Some r"
    using findMissingDirs_loop_returns [OF canonical_normalizePath] by blast
  then show ?thesis
    by (simp add: MkdirAll_def findMissingDirs_def Let_def split: sum.splits prod.splits)
qed

lemma findMissingDirs_loop_prefix_aux:
  assumes "findMissingDirs_loop m cur acc = Some r"
  shows "\<forall>ms. fst r = Inr ms \<longrightarrow> (\<exists>rest. ms = acc @ rest)"
  by (rule findMissingDirs_loop.raw_induct
        [where P = "\<lambda>m cur acc r. \<forall>ms. fst r = Inr ms \<longrightarrow> (\<exists>rest. ms = acc @ rest)", OF _ assms])
     (fastforce split: if_splits sum.splits)

lemma findMissingDirs_loop_prefix:
  "findMissingDirs_loop m cur acc = Some (Inr ms, m') \<Longrightarrow> \<exists>rest. ms = acc @ rest"
  using findMissingDirs_loop_prefix_aux by fastforce

text \<open>The walk passes the initialisation gate unless it starts at the root.\<close>

lemma findMissingDirs_loop_state_aux:
  assumes "findMissingDirs_loop m cur acc = Some r"
  shows "snd r = (if cur = FilePathSeparator then m else getData m)"
  by (rule findMissingDirs_loop.raw_induct
        [where P = "\<lambda>m cur acc r. snd r = (if cur = FilePathSeparator then m else getData m)",
         OF _ assms])
     (auto simp: getData_idem split: if_splits sum.splits)

lemma findMissingDirs_loop_state:
  "findMissingDirs_loop m cur acc = Some (r, m') \<Longrightarrow>
     m' = (if cur = FilePathSeparator then m else getData m)"
  using findMissingDirs_loop_state_aux by fastforce

lemma MkdirAll_existing:
  assumes "normalizePath p = FilePathSeparator
         \<or> (\<exists>f. fs_data (getData m) (normalizePath p) = Some f \<and> fd_dir (fs_heap (getData m) f))"
  shows "MkdirAll p perm m =
           Some (Inr (), if normalizePath p = FilePathSeparator then m else getData m)"
proof -
  have "findMissingDirs_loop m (normalizePath p) [] =
          Some (Inr [], if normalizePath p = FilePathSeparator then m else getData m)"
    using assms
    by (subst findMissingDirs_loop.simps)
       (auto simp: Stat_found normalizePath_idem IsDir_def)
  then show ?thesis
    by (simp add: MkdirAll_def findMissingDirs_def)
qed

lemma Mkdir_success:
  assumes "Mkdir d perm m = (Inr (), m')"
  shows "fs_init m' \<and> (\<exists>f. fs_data m' (normalizePath d) = Some f \<and> fd_dir (fs_heap m' f))"
  using assms getData_init_flag [of m]
  by (auto simp: Mkdir_def Let_def registerWithParent_def unrestrictedChmod_def
      normalizePath_idem mem_defs
      split: if_splits sum.splits option.splits prod.splits)

lemma MkdirAll_loop_snoc:
  "MkdirAll_loop perm (ds @ [d]) m = (Inr (), m') \<Longrightarrow>
     \<exists>m1. MkdirAll_loop perm ds m = (Inr (), m1) \<and> Mkdir d perm m1 = (Inr (), m')"
  by (induction ds arbitrary: m) (auto split: prod.splits sum.splits)

lemma MkdirAll_success:
  assumes "MkdirAll p perm m = Some (Inr (), m')"
  shows "(normalizePath p = FilePathSeparator \<and> m' = m)
         \<or> (fs_init m' \<and> (\<exists>f. fs_data m' (normalizePath p) = Some f \<and> fd_dir (fs_heap m' f)))"
proof -
  let ?n = "normalizePath p"
  let ?m0 = "getData m"
  obtain missing m1 where missing: "findMissingDirs_loop m ?n [] = Some (Inr missing, m1)"
    and run: "MkdirAll_loop (perm AND chmodBits) (rev missing) m1 = (Inr (), m')"
    using assms
    by (auto simp: MkdirAll_def findMissingDirs_def Let_def split: option.splits sum.splits prod.splits)
  show ?thesis
  proof (cases "?n = FilePathSeparator")
    case True
    then have "missing = []" and "m1 = m"
      using missing by (subst (asm) findMissingDirs_loop.simps, simp)+
    then show ?thesis
      using run True by simp
  next
    case False
    have m1: "m1 = ?m0"
      using findMissingDirs_loop_state [OF missing] False by simp
    show ?thesis
    proof (cases "Stat ?m0 ?n")
      case (Inr f)
      then have "missing = []" and "fd_dir (fs_heap ?m0 f)"
        using missing False
        by (subst (asm) findMissingDirs_loop.simps, simp add: IsDir_def split: if_splits)+
      then show ?thesis
        using run m1 Stat_Inr [OF Inr] getData_init_flag [of m] by (simp add: normalizePath_idem)
    next
      case (Inl err)
      then have "findMissingDirs_loop ?m0 (Dir ?n) [?n] = Some (Inr missing, m1)"
        using missing False
        by (subst (asm) findMissingDirs_loop.simps) (simp split: if_splits)
      then obtain rest where "missing = ?n # rest"
        using findMissingDirs_loop_prefix by fastforce
      then have "MkdirAll_loop (perm AND chmodBits) (rev rest @ [?n]) m1 = (Inr (), m')"
        using run by simp
      then obtain m2 where "Mkdir ?n (perm AND chmodBits) m2 = (Inr (), m')"
        using MkdirAll_loop_snoc by blast
      then show ?thesis
        using Mkdir_success [of ?n _ m2 m'] by (simp add: normalizePath_idem)
    qed
  qed
qed

text \<open>
  C6: \<open>MkdirAll\<close> is idempotent.  If a call succeeds, a call on the same path that
  follows it immediately, with any permission, returns without error and changes nothing;
  and whenever the path already is a directory of the table, \<open>MkdirAll\<close> returns without
  error and changes nothing but to initialise a filesystem not yet accessed (which a call
  on the root path leaves as it is).
\<close>

theorem MkdirAll_idempotent:
  "(MkdirAll p perm m = Some (Inr (), m') \<longrightarrow> MkdirAll p perm' m' = Some (Inr (), m'))
   \<and> ((\<exists>f. fs_data (getData m) (normalizePath p) = Some f \<and> fd_dir (fs_heap (getData m) f))
        \<longrightarrow> MkdirAll p perm m =
              Some (Inr (), if normalizePath p = FilePathSeparator then m else getData m))"
proof (intro conjI impI)
  assume first: "MkdirAll p perm m = Some (Inr (), m')"
  show "MkdirAll p perm' m' = Some (Inr (), m')"
  proof (cases "normalizePath p = FilePathSeparator")
    case True
    then show ?thesis
      using MkdirAll_existing [of p m' perm'] by simp
  next
    case False
    then have i: "fs_init m'"
      and d: "\<exists>f. fs_data m' (normalizePath p) = Some f \<and> fd_dir (fs_heap m' f)"
      using MkdirAll_success [OF first] by auto
    have "getData m' = m'"
      using i by (rule getData_initialised)
    then show ?thesis
      using MkdirAll_existing [of p m' perm'] d False by simp
  qed
next
  assume "\<exists>f. fs_data (getData m) (normalizePath p) = Some f \<and> fd_dir (fs_heap (getData m) f)"
  then show "MkdirAll p perm m =
               Some (Inr (), if normalizePath p = FilePathSeparator then m else getData m)"
    using MkdirAll_existing by blast
qed

theorem MkdirAll_idempotent_witness:
  "MkdirAll ''/a'' 0x1ED NewMemMapFs = Some (Inr (), dirAFs)
   \<and> MkdirAll ''/a'' 0x1ED dirAFs = Some (Inr (), dirAFs)
   \<and> fs_data (getData dirAFs) (normalizePath ''/a'') = Some 1
   \<and> fd_dir (fs_heap (getData dirAFs) 1)
   \<and> MkdirAll ''/a'' 0 dirAFs = Some (Inr (), getData dirAFs)
   \<and> fs_data (getData NewMemMapFs) (normalizePath ''/'') = Some 0
   \<and> fd_dir (fs_heap (getData NewMemMapFs) 0)
   \<and> MkdirAll ''/'' 0 NewMemMapFs = Some (Inr (), NewMemMapFs)"
proof -
  have c0: "getData dirAFs = dirAFs"
    by (simp add: getData_initialised dirAFs_def)
  have c3: "fs_data (getData dirAFs) (normalizePath ''/a'') = Some 1"
    and c4: "fd_dir (fs_heap (getData dirAFs) 1)"
    unfolding c0 by (simp_all add: dirAFs_def path_evals)
  have r3: "fs_data (getData NewMemMapFs) (normalizePath ''/'') = Some 0"
    and r4: "fd_dir (fs_heap (getData NewMemMapFs) 0)"
    by (simp_all add: getData_init path_evals)
  have "MkdirAll ''/a'' 0x1ED dirAFs = Some (Inr (), dirAFs)"
    using MkdirAll_idempotent [of "''/a''" "0x1ED" NewMemMapFs dirAFs "0x1ED"] MkdirAll_a by simp
  moreover have "MkdirAll ''/a'' 0 dirAFs = Some (Inr (), getData dirAFs)"
    using MkdirAll_idempotent [of "''/a''" 0 dirAFs] c3 c4 by (simp add: path_evals)
  moreover have "MkdirAll ''/'' 0 NewMemMapFs = Some (Inr (), NewMemMapFs)"
    using MkdirAll_idempotent [of "''/''" 0 NewMemMapFs] r3 r4 by (simp add: path_evals)
  ultimately show ?thesis
    using MkdirAll_a c3 c4 r3 r4 by simp
qed

section \<open>Table entries are allocated\<close>

lemma sameTable_refl: "sameTable m m"
  by (simp add: sameTable_def)

lemma sameTable_trans: "sameTable a b \<Longrightarrow> sameTable b c \<Longrightarrow> sameTable a c"
  by (auto simp: sameTable_def)

lemma sameTable_heap: "sameTable m (m\<lparr>fs_heap := h\<rparr>)"
  by (simp add: sameTable_def)

lemma sameTable_delete: "sameTable m (m\<lparr>fs_data := (fs_data m)(p := None)\<rparr>)"
  by (auto simp: sameTable_def ran_def split: if_splits)

lemma sameTable_alias: "fs_data m p = Some f \<Longrightarrow> sameTable m (m\<lparr>fs_data := (fs_data m)(q \<mapsto> f)\<rparr>)"
  by (auto simp: sameTable_def ran_def split: if_splits)

lemma sameTable_unRegisterWithParent:
  "unRegisterWithParent p m = (r, m') \<Longrightarrow> sameTable m m'"
  by (auto simp: unRegisterWithParent_def RemoveFromMemDir_def updEntry_def sameTable_def
      split: sum.splits option.splits)

lemma sameTable_registerWithParent:
  "registerWithParent f m = (r, m') \<Longrightarrow> sameTable m m'"
  by (auto simp: registerWithParent_def AddToMemDir_def InitializeDir_def updEntry_def sameTable_def
      split: sum.splits option.splits)

lemma sameTable_lockFreeRemoveAll:
  "lockFreeRemoveAll fuel p m = Some (r, m') \<Longrightarrow> sameTable m m'"
  "lockFreeRemoveAll_children fuel p cs m = Some (r, m') \<Longrightarrow> sameTable m m'"
proof (induction fuel p m and fuel p cs m arbitrary: r m' and r m'
    rule: lockFreeRemoveAll_lockFreeRemoveAll_children.induct)
  case (1 path0 m)
  then show ?case by simp
next
  case (2 fuel path0 m)
  show ?case
  proof (cases "lockfreeOpen m (normalizePath path0)")
    case (Inl err)
    then show ?thesis using "2.prems" by (auto simp: sameTable_refl Let_def split: if_splits)
  next
    case (Inr f)
    obtain u m1 where u: "unRegisterWithParent (normalizePath path0) m = (u, m1)"
      by (cases "unRegisterWithParent (normalizePath path0) m")
    have s1: "sameTable m m1"
      using u by (rule sameTable_unRegisterWithParent)
    show ?thesis
    proof (cases u)
      case (Inl err)
      then show ?thesis using "2.prems" Inr u s1 by (auto simp: Let_def)
    next
      case ur: (Inr x)
      show ?thesis
      proof (cases "ReadMemDir m1 f")
        case (Inl e)
        then show ?thesis using "2.prems" Inr u ur s1
          by (auto simp: Let_def intro: sameTable_trans [OF s1 sameTable_delete])
      next
        case rd: (Inr dir)
        then obtain r2 m2 where c: "lockFreeRemoveAll_children fuel (normalizePath path0) dir m1 = Some (r2, m2)"
          and m': "m' = m2\<lparr>fs_data := (fs_data m2)(normalizePath path0 := None)\<rparr>"
          using "2.prems" Inr u ur by (auto simp: Let_def split: option.splits)
        have "sameTable m1 m2"
          using "2.IH" [OF refl Inr u [symmetric] ur rd c] .
        then show ?thesis
          unfolding m' using s1 sameTable_delete sameTable_trans by blast
      qed
    qed
  qed
next
  case (3 fuel path m)
  then show ?case by (simp add: sameTable_refl)
next
  case (4 fuel path f fs m)
  obtain r1 m1 where a: "lockFreeRemoveAll fuel (Join path f) m = Some (r1, m1)"
    using "4.prems" by (auto split: option.splits)
  have s1: "sameTable m m1"
    using "4.IH"(1) a by blast
  show ?case
  proof (cases r1)
    case (Inl e)
    then show ?thesis using "4.prems" a s1 by simp
  next
    case (Inr x)
    then have "lockFreeRemoveAll_children fuel path fs m1 = Some (r, m')"
      using "4.prems" a by simp
    then have "sameTable m1 m'"
      using "4.IH"(2) a Inr by blast
    then show ?thesis using s1 sameTable_trans by blast
  qed
qed

lemma sameTable_ChangeFileName: "sameTable m (ChangeFileName f n m)"
  by (simp add: ChangeFileName_def updEntry_def sameTable_def)

lemma sameTable_lockFreeRename:
  "lockFreeRename fuel old new m = Some (r, m') \<Longrightarrow> sameTable m m'"
  "lockFreeRename_children fuel old new cs m = Some (r, m') \<Longrightarrow> sameTable m m'"
proof (induction fuel old new m and fuel old new cs m arbitrary: r m' and r m'
    rule: lockFreeRename_lockFreeRename_children.induct)
  case (1 oldname newname m)
  then show ?case by simp
next
  case (2 fuel oldname newname m)
  show ?case
  proof (cases "fs_data m oldname")
    case None
    then show ?thesis using "2.prems" by (auto simp: sameTable_refl)
  next
    case (Some f)
    define m1 where "m1 = m\<lparr>fs_data := (fs_data m)(newname \<mapsto> f)\<rparr>"
    define dir where "dir = (case ReadMemDir m1 f of Inl _ \<Rightarrow> [] | Inr d \<Rightarrow> d)"
    have s1: "sameTable m m1"
      unfolding m1_def using Some by (rule sameTable_alias)
    obtain u m2 where u: "unRegisterWithParent oldname m1 = (u, m2)"
      by (cases "unRegisterWithParent oldname m1")
    have s2: "sameTable m m2"
      using s1 sameTable_unRegisterWithParent [OF u] sameTable_trans by blast
    show ?thesis
    proof (cases u)
      case (Inl err)
      then show ?thesis
        using "2.prems" Some u s2 by (simp add: Let_def m1_def [symmetric])
    next
      case ur: (Inr x)
      define m3 where "m3 = ChangeFileName f newname m2"
      obtain g m4 where g: "registerWithParent f m3 = (g, m4)"
        by (cases "registerWithParent f m3")
      have s4: "sameTable m m4"
        using s2 sameTable_ChangeFileName [of m2 f newname]
          sameTable_registerWithParent [OF g] sameTable_trans
        unfolding m3_def by blast
      show ?thesis
      proof (cases g)
        case (Inl p)
        then show ?thesis
          using "2.prems" Some u ur g s4
          by (simp add: Let_def m1_def [symmetric] m3_def [symmetric])
      next
        case gr: (Inr y)
        have run: "(case lockFreeRename_children fuel oldname newname dir m4 of
                      None \<Rightarrow> None
                    | Some (Inl p, m5) \<Rightarrow> Some (Inl p, m5)
                    | Some (Inr _, m5) \<Rightarrow>
                        Some (Inr (), m5\<lparr>fs_data := (fs_data m5)(oldname := None)\<rparr>)) = Some (r, m')"
          using "2.prems" Some u ur g gr
          by (simp add: Let_def m1_def [symmetric] m3_def [symmetric] dir_def [symmetric])
        then obtain r5 m5 where c: "lockFreeRename_children fuel oldname newname dir m4 = Some (r5, m5)"
          by (auto split: option.splits)
        have s5: "sameTable m4 m5"
          using "2.IH" [OF Some m1_def dir_def u [symmetric] ur m3_def g [symmetric] gr c] .
        have "sameTable m5 m'"
          using run c by (auto simp: sameTable_refl sameTable_delete split: sum.splits)
        then show ?thesis
          using s4 s5 sameTable_trans by blast
      qed
    qed
  qed
next
  case (3 fuel oldname newname m)
  then show ?case by (simp add: sameTable_refl)
next
  case (4 fuel oldname newname f fs m)
  obtain r1 m1 where a: "lockFreeRename fuel (Join oldname f) (Join newname f) m = Some (r1, m1)"
    using "4.prems" by (auto split: option.splits)
  have s1: "sameTable m m1"
    using "4.IH"(1) a by blast
  show ?case
  proof (cases r1)
    case (Inl e)
    then show ?thesis using "4.prems" a s1 by simp
  next
    case (Inr x)
    then have "lockFreeRename_children fuel oldname newname fs m1 = Some (r, m')"
      using "4.prems" a by simp
    then have "sameTable m1 m'"
      using "4.IH"(2) a Inr by blast
    then show ?thesis using s1 sameTable_trans by blast
  qed
qed

lemma grows_refl: "grows m m"
  by (simp add: grows_def)

lemma grows_trans: "grows a b \<Longrightarrow> grows b c \<Longrightarrow> grows a c"
  unfolding grows_def by (metis (no_types, lifting) le_trans less_le_trans)

lemma sameTable_grows: "sameTable m m' \<Longrightarrow> grows m m'"
  by (auto simp: sameTable_def grows_def)

lemma grows_heap: "grows m (m\<lparr>fs_heap := h\<rparr>)"
  by (simp add: grows_def)

lemma grows_fresh:
  "grows m (m\<lparr>fs_heap := h, fs_next := Suc (fs_next m), fs_data := (fs_data m)(nm \<mapsto> fs_next m)\<rparr>)"
  by (auto simp: grows_def ran_def split: if_splits)

lemma entriesAllocated_grows:
  "entriesAllocated m \<Longrightarrow> grows m m' \<Longrightarrow> entriesAllocated m'"
proof -
  assume a: "entriesAllocated m" and g: "grows m m'"
  have old: "f < fs_next m" if "fs_data m p = Some f" for p f
    using a that by (auto simp: entriesAllocated_def split: option.splits dest!: spec [of _ p])
  have "f < fs_next m'" if "fs_data m' p = Some f" for p f
  proof -
    have "f \<in> ran (fs_data m')"
      using that by (auto simp: ran_def)
    then have "f \<in> ran (fs_data m) \<or> (fs_next m \<le> f \<and> f < fs_next m')"
      using g by (simp add: grows_def)
    then show ?thesis
      using old g by (auto simp: ran_def grows_def intro: less_le_trans)
  qed
  then show ?thesis
    by (auto simp: entriesAllocated_def split: option.splits)
qed

lemma grows_SetMode: "grows m (SetMode f md m)"
  by (simp add: SetMode_def updEntry_def grows_def)

lemma grows_unrestrictedChmod: "unrestrictedChmod p md m = (r, m') \<Longrightarrow> grows m m'"
  by (auto simp: unrestrictedChmod_def Let_def grows_refl grows_SetMode split: option.splits)

lemma grows_Truncate: "Truncate now h n m = (r, m') \<Longrightarrow> grows m m'"
  by (auto simp: Truncate_def updEntry_def grows_def split: if_splits)

lemma grows_Create:
  assumes "Create fuel now p m = Some (r, m')" and "fs_init m"
  shows "grows m m'"
proof -
  let ?nm = "normalizePath p"
  have g: "getData m = m"
    using assms(2) by (rule getData_initialised)
  show ?thesis
  proof (cases "requireParentDirectory ''open'' ?nm m")
    case (Inl err)
    then show ?thesis using assms(1) by (simp add: Create_def g Let_def grows_refl)
  next
    case req: (Inr u)
    show ?thesis
    proof (cases "Stat m ?nm")
      case st: (Inl err)
      show ?thesis
      proof (cases "IsNotExist err")
        case False
        then show ?thesis using assms(1) req st by (auto simp add: Create_def g Let_def grows_refl)
      next
        case True
        then obtain r1 m1 where rm: "lockFreeRemoveAll fuel ?nm m = Some (r1, m1)"
          using assms(1) req st by (auto simp add: Create_def g Let_def split: option.splits)
        have s1: "grows m m1"
          using sameTable_lockFreeRemoveAll(1) [OF rm] by (rule sameTable_grows)
        show ?thesis
        proof (cases r1)
          case (Inl pn)
          then show ?thesis
            using assms(1) req st True rm s1 by (simp add: Create_def g Let_def)
        next
          case (Inr x)
          define m3 where "m3 = SetMode (fs_next m1) createPerm (snd (alloc (CreateFile ?nm now) m1))"
          define m4 where "m4 = m3\<lparr>fs_data := (fs_data m3)(?nm \<mapsto> fs_next m1)\<rparr>"
          obtain g5 m5 where reg: "registerWithParent (fs_next m1) m4 = (g5, m5)"
            by (cases "registerWithParent (fs_next m1) m4")
          have "m' = m5"
            using assms(1) req st True rm Inr reg
            by (auto simp add: Create_def g Let_def alloc_def m3_def m4_def split: sum.splits)
          moreover have "grows m1 m4"
            unfolding m4_def m3_def
            by (auto simp: grows_def alloc_def SetMode_def updEntry_def ran_def split: if_splits)
          moreover have "grows m4 m5"
            using sameTable_registerWithParent [OF reg] by (rule sameTable_grows)
          ultimately show ?thesis
            using s1 grows_trans by blast
        qed
      qed
    next
      case st: (Inr info)
      then show ?thesis
        using assms(1) req
        by (auto simp add: Create_def g Let_def grows_refl split: if_splits option.splits prod.splits sum.splits
            dest: grows_Truncate)
    qed
  qed
qed

lemma grows_Mkdir:
  assumes "Mkdir p perm m = (r, m')" and "fs_init m"
  shows "grows m m'"
proof -
  let ?nm = "normalizePath p"
  have g: "getData m = m"
    using assms(2) by (rule getData_initialised)
  show ?thesis
  proof (cases "fs_data m ?nm \<noteq> None \<or> isl (requireParentDirectory ''mkdir'' ?nm m)")
    case True
    then show ?thesis
      using assms(1) by (auto simp add: Mkdir_def g Let_def grows_refl split: sum.splits if_splits)
  next
    case False
    define m1 where "m1 = snd (alloc (CreateDir ?nm) m)"
    define m2 where "m2 = m1\<lparr>fs_data := (fs_data m1)(?nm \<mapsto> fs_next m)\<rparr>"
    obtain g3 m3 where reg: "registerWithParent (fs_next m) m2 = (g3, m3)"
      by (cases "registerWithParent (fs_next m) m2")
    have a: "grows m m2"
      unfolding m2_def m1_def
      by (auto simp: grows_def alloc_def ran_def split: if_splits)
    have b: "grows m2 m3"
      using sameTable_registerWithParent [OF reg] by (rule sameTable_grows)
    have "m' = m3 \<or> (\<exists>r'. unrestrictedChmod ?nm ((perm AND chmodBits) OR ModeDir) m3 = (r', m'))"
      using assms(1) False reg
      by (auto simp add: Mkdir_def g Let_def alloc_def m1_def m2_def split: sum.splits)
    then have "grows m3 m'"
      using grows_unrestrictedChmod grows_refl by blast
    then show ?thesis
      using a b grows_trans by blast
  qed
qed

lemma grows_init: "grows m m' \<Longrightarrow> fs_init m \<Longrightarrow> fs_init m'"
  by (simp add: grows_def)

lemma grows_MkdirAll_loop:
  "MkdirAll_loop perm ds m = (r, m') \<Longrightarrow> fs_init m \<Longrightarrow> grows m m'"
proof (induction ds arbitrary: m)
  case Nil
  then show ?case by (simp add: grows_refl)
next
  case (Cons d ds)
  obtain r1 m1 where a: "Mkdir d perm m = (r1, m1)"
    by (cases "Mkdir d perm m")
  have g1: "grows m m1"
    using grows_Mkdir [OF a Cons.prems(2)] .
  show ?case
  proof (cases r1)
    case (Inl e)
    then show ?thesis using Cons.prems(1) a g1 by simp
  next
    case (Inr x)
    then have "MkdirAll_loop perm ds m1 = (r, m')"
      using Cons.prems(1) a by simp
    then have "grows m1 m'"
      using Cons.IH grows_init [OF g1 Cons.prems(2)] by blast
    then show ?thesis using g1 grows_trans by blast
  qed
qed

lemma grows_MkdirAll:
  assumes "MkdirAll p perm m = Some (r, m')" and "fs_init m"
  shows "grows m m'"
proof -
  obtain x m1 where w: "findMissingDirs_loop m (normalizePath p) [] = Some (x, m1)"
    using assms(1)
    by (auto simp: MkdirAll_def findMissingDirs_def Let_def split: option.splits)
  have m1: "m1 = m"
    using findMissingDirs_loop_state [OF w] getData_initialised [OF assms(2)] by simp
  show ?thesis
    using assms w unfolding m1
    by (auto simp: MkdirAll_def findMissingDirs_def Let_def grows_refl
        split: sum.splits dest: grows_MkdirAll_loop)
qed

lemma grows_Remove:
  assumes "Remove p m = (r, m')" and "fs_init m"
  shows "grows m m'"
proof -
  let ?nm = "normalizePath p"
  have g: "getData m = m"
    using assms(2) by (rule getData_initialised)
  obtain u m1 where u: "unRegisterWithParent ?nm m = (u, m1)"
    by (cases "unRegisterWithParent ?nm m")
  have s1: "sameTable m m1"
    using u by (rule sameTable_unRegisterWithParent)
  have "m' = m \<or> m' = m1 \<or> m' = m1\<lparr>fs_data := (fs_data m1)(?nm := None)\<rparr>"
    using assms(1) u
    by (auto simp: Remove_def g Let_def split: option.splits sum.splits if_splits failure.splits)
  then show ?thesis
    using s1 sameTable_delete [of m1 ?nm] sameTable_trans sameTable_grows grows_refl by blast
qed

lemma grows_RemoveAll:
  "RemoveAll fuel p m = Some (r, m') \<Longrightarrow> fs_init m \<Longrightarrow> grows m m'"
  by (simp add: RemoveAll_def getData_initialised sameTable_lockFreeRemoveAll(1) sameTable_grows)

lemma grows_Rename:
  assumes "Rename fuel old new m = Some (r, m')" and "fs_init m"
  shows "grows m m'"
proof -
  have g: "getData m = m"
    using assms(2) by (rule getData_initialised)
  show ?thesis
  proof (cases "lockFreeRemoveAll fuel (normalizePath new) m")
    case None
    then show ?thesis
      using assms(1) by (auto simp: Rename_def g Let_def grows_refl split: if_splits)
  next
    case (Some a)
    obtain r1 m1 where a: "a = (r1, m1)"
      by (cases a)
    have s1: "sameTable m m1"
      using sameTable_lockFreeRemoveAll(1) Some a by blast
    have "m' = m \<or> m' = m1 \<or> lockFreeRename fuel (normalizePath old) (normalizePath new) m1 = Some (r, m')"
      using assms(1) Some a
      by (auto simp: Rename_def g Let_def split: if_splits sum.splits)
    then show ?thesis
      using s1 sameTable_lockFreeRename(1) sameTable_trans sameTable_grows grows_refl by blast
  qed
qed

lemma grows_Chmod: "Chmod p md m = (r, m') \<Longrightarrow> fs_init m \<Longrightarrow> grows m m'"
  by (auto simp: Chmod_def Let_def getData_initialised grows_refl
      split: option.splits dest: grows_unrestrictedChmod)

lemma grows_Chtimes: "Chtimes p a t m = (r, m') \<Longrightarrow> fs_init m \<Longrightarrow> grows m m'"
  by (auto simp: Chtimes_def Let_def getData_initialised grows_refl SetModTime_def updEntry_def grows_heap
      split: option.splits)

lemma grows_OpenFile:
  assumes "OpenFile fuel now p flag perm m = Some (r, m')" and "fs_init m"
  shows "grows m m'"
proof -
  have g: "getData m = m"
    using assms(2) by (rule getData_initialised)
  define start where "start =
    (if isl (openWrite m p) \<and> IsNotExist (projl (openWrite m p)) \<and> flag AND O_CREATE > 0
     then map_option (\<lambda>(r, m1). (r, m1, True)) (Create fuel now p m)
     else Some (openWrite m p, m, False))"
  show ?thesis
  proof (cases "\<not> isl (openWrite m p) \<and> flag AND O_EXCL > 0")
    case True
    then show ?thesis
      using assms(1) by (simp add: OpenFile_def g Let_def grows_refl)
  next
    case False
    then obtain r1 m1 c where st: "start = Some (r1, m1, c)"
      using assms(1) unfolding start_def
      by (auto simp: OpenFile_def g Let_def split: option.splits if_splits)
    have g1: "grows m m1"
      using st assms(2) unfolding start_def
      by (auto simp: grows_refl split: if_splits dest: grows_Create)
    show ?thesis
    proof (cases r1)
      case (Inl e)
      then show ?thesis
        using assms(1) False st g1 unfolding start_def
        by (simp add: OpenFile_def g Let_def)
    next
      case (Inr h)
      define h2 where "h2 = (let file1 = (if flag = O_RDONLY then NewReadOnlyFileHandle (fileData h) else h)
                             in if flag AND O_APPEND > 0 then SeekEnd file1 m1 else file1)"
      obtain r2 m2 where t: "(if flag AND O_TRUNC > 0 \<and> flag AND (O_RDWR OR O_WRONLY) > 0
                          then Truncate now h2 0 m1 else (Inr (), m1)) = (r2, m2)"
        by (cases "(if flag AND O_TRUNC > 0 \<and> flag AND (O_RDWR OR O_WRONLY) > 0
                          then Truncate now h2 0 m1 else (Inr (), m1))")
      have g2: "grows m1 m2"
        using t by (auto simp: grows_refl split: if_splits dest: grows_Truncate)
      have "m' = m2 \<or> (\<exists>r3. unrestrictedChmod p (perm AND chmodBits) m2 = (r3, m'))"
        using assms(1) False st Inr t unfolding start_def h2_def
        by (auto simp: OpenFile_def g Let_def split: sum.splits if_splits prod.splits)
      then have "grows m2 m'"
        using grows_unrestrictedChmod grows_refl by blast
      then show ?thesis
        using g1 g2 grows_trans by blast
    qed
  qed
qed

lemma grows_perform:
  assumes "perform fuel opn m = Some (r, m')" and "fs_init m"
  shows "grows m m'"
proof (cases opn)
  case (OpCreate now nm)
  then show ?thesis
    using assms by (auto simp: dropHandle_def dest: grows_Create)
next
  case (OpOpenFile now nm flag perm)
  then show ?thesis
    using assms by (auto simp: dropHandle_def dest: grows_OpenFile)
qed (use assms in \<open>auto dest: grows_Mkdir grows_MkdirAll grows_Remove grows_RemoveAll
      grows_Rename grows_Chmod grows_Chtimes\<close>)

lemma reachable_allocated: "reachable m \<Longrightarrow> fs_init m \<and> entriesAllocated m"
proof (induction rule: reachable.induct)
  case initial
  then show ?case
    by (simp add: getData_init_flag entriesAllocated_init)
next
  case (step m fuel opn r m')
  then have "grows m m'"
    using grows_perform by blast
  then show ?case
    using step.IH grows_init entriesAllocated_grows by blast
qed

text \<open>
  Every state reached by the operations is initialised and has its entries at allocated
  addresses: the states of which C2 speaks include all of them.
\<close>

lemma reachable_Create_applies:
  "reachable m \<Longrightarrow> getData m = m \<and> entriesAllocated (getData m)"
  using reachable_allocated getData_initialised by fastforce

end
